theory Spec2Isabelle
  imports Complex_Main "HOL-Library.Multiset"
begin

section \<open>Numbers, series and tables\<close>

text \<open>
  The program works on pandas tables. A table is the list of its named columns, a column
  being numeric or an object column of strings, each with missing entries. An entry of an
  object column is a string or one of the two missing markers of pandas, NaN and the None of
  Python. A string is a list of characters with code points below 256. A number of a
  numeric column is a real, and the missing marker NaN is \<open>None\<close>; rounding of the
  machine's doubles is not part of the model. The statistics of pandas skip missing values
  (\<open>skipna=True\<close>, the default). The pandas modelled is that of the versions before 3.

  The names of the columns of a table are distinct. A table with a repeated name, for
  which \<open>df[name]\<close> is a table and not a series, is outside the model: \<open>column\<close>
  finds the first column of a name.
\<close>

type_synonym num = "real option"

datatype obj = Str string | ObjNaN | ObjNone

datatype series = Numeric "num list" | Object "obj list"

datatype cell = NumV real | StrV string | NaN | NoneV

type_synonym dataframe = "(string \<times> series) list"

datatype error =
    KeyError string
  | TypeError
  | ValueError string "string list"
  | AttributeError

text \<open>Arithmetic of doubles with NaN: a NaN operand gives NaN.\<close>

fun nsub :: "num \<Rightarrow> num \<Rightarrow> num" where
  "nsub (Some a) (Some b) = Some (a - b)"
| "nsub _ _ = None"

fun nadd :: "num \<Rightarrow> num \<Rightarrow> num" where
  "nadd (Some a) (Some b) = Some (a + b)"
| "nadd _ _ = None"

fun ndiv :: "num \<Rightarrow> num \<Rightarrow> num" where
  "ndiv (Some a) (Some b) = Some (a / b)"
| "ndiv _ _ = None"

definition nsq :: "num \<Rightarrow> num" where
  "nsq a = map_option (\<lambda>x. x\<^sup>2) a"

definition nsqrt :: "num \<Rightarrow> num" where
  "nsqrt a = map_option sqrt a"

text \<open>The values of a series that are not missing, in order.\<close>

fun present :: "'a option list \<Rightarrow> 'a list" where
  "present [] = []"
| "present (None # xs) = present xs"
| "present (Some x # xs) = x # present xs"

text \<open>\<open>Series.dropna()\<close>: a new series without the missing entries.\<close>

definition dropna :: "'a option list \<Rightarrow> 'a option list" where
  "dropna xs = map Some (present xs)"

text \<open>\<open>Series.mean()\<close>: NaN when no value is present.\<close>

definition series_mean :: "num list \<Rightarrow> num" where
  "series_mean xs =
     (let vs = present xs
      in if vs = [] then None else Some (sum_list vs / real (length vs)))"

text \<open>\<open>Series.std()\<close>: the sample standard deviation (\<open>ddof=1\<close>), NaN below two values.\<close>

definition series_std :: "num list \<Rightarrow> num" where
  "series_std xs =
     (let vs = present xs; n = length vs
      in if n < 2 then None
         else Some (sqrt (sum_list (map (\<lambda>x. (x - sum_list vs / real n)\<^sup>2) vs) / real (n - 1))))"

text \<open>\<open>Series.median()\<close>: the middle of the sorted values, the mean of the two middle ones
  when their number is even.\<close>

definition series_median :: "num list \<Rightarrow> num" where
  "series_median xs =
     (let vs = sort (present xs); n = length vs
      in if n = 0 then None
         else if odd n then Some (vs ! (n div 2))
         else Some ((vs ! (n div 2 - 1) + vs ! (n div 2)) / 2))"

definition series_min :: "num list \<Rightarrow> num" where
  "series_min xs = (case present xs of [] \<Rightarrow> None | v # vs \<Rightarrow> Some (fold min vs v))"

definition series_max :: "num list \<Rightarrow> num" where
  "series_max xs = (case present xs of [] \<Rightarrow> None | v # vs \<Rightarrow> Some (fold max vs v))"

section \<open>cohenEffectSize\<close>

text \<open>\<open>np.sqrt((s1 ** 2 + s2 ** 2) / 2)\<close>, as both effect sizes compute it.\<close>

definition pooled_std :: "num \<Rightarrow> num \<Rightarrow> num" where
  "pooled_std s1 s2 = nsqrt (ndiv (nadd (nsq s1) (nsq s2)) (Some 2))"

definition cohenEffectSize :: "num list \<Rightarrow> num list \<Rightarrow> num" where
  "cohenEffectSize g1 g2 =
     (let group1 = dropna g1; group2 = dropna g2
      in if group1 = [] \<or> group2 = [] then None
         else
           let mean_diff = nsub (series_mean group1) (series_mean group2);
               pooled = pooled_std (series_std group1) (series_std group2)
           in if pooled = Some 0 then Some 0 else ndiv mean_diff pooled)"

section \<open>Tables\<close>

text \<open>\<open>df[name]\<close>: the column of that name; KeyError when there is none.\<close>

definition column :: "dataframe \<Rightarrow> string \<Rightarrow> series option" where
  "column df name = map_of df name"

text \<open>Boolean indexing \<open>xs[keep]\<close>: the entries at which \<open>keep\<close> is true, in order.\<close>

fun take_rows :: "bool list \<Rightarrow> 'a list \<Rightarrow> 'a list" where
  "take_rows (b # bs) (x # xs) = (if b then x # take_rows bs xs else take_rows bs xs)"
| "take_rows _ _ = []"

fun series_take :: "bool list \<Rightarrow> series \<Rightarrow> series" where
  "series_take keep (Numeric xs) = Numeric (take_rows keep xs)"
| "series_take keep (Object ys) = Object (take_rows keep ys)"

text \<open>\<open>df[keep]\<close>: a new table with the selected rows of every column.\<close>

definition select_rows :: "bool list \<Rightarrow> dataframe \<Rightarrow> dataframe" where
  "select_rows keep df = map (\<lambda>(name, s). (name, series_take keep s)) df"

text \<open>\<open>d[k] = v\<close> on a dict, and \<open>df[name] = s\<close> on a table: the entry is replaced in
  place when the key is there and appended otherwise.\<close>

fun dict_set :: "('k \<times> 'v) list \<Rightarrow> 'k \<Rightarrow> 'v \<Rightarrow> ('k \<times> 'v) list" where
  "dict_set [] k v = [(k, v)]"
| "dict_set ((k', v') # d) k v =
     (if k' = k then (k, v) # d else (k', v') # dict_set d k v)"

text \<open>The entries of a column as cells, and the table read row by row.\<close>

fun num_cell :: "num \<Rightarrow> cell" where
  "num_cell None = NaN"
| "num_cell (Some r) = NumV r"

fun str_cell :: "obj \<Rightarrow> cell" where
  "str_cell (Str v) = StrV v"
| "str_cell ObjNaN = NaN"
| "str_cell ObjNone = NoneV"

text \<open>\<open>isna\<close>: both markers are missing values.\<close>

fun missing :: "cell \<Rightarrow> bool" where
  "missing NaN = True"
| "missing NoneV = True"
| "missing c = False"

text \<open>\<open>str(value)\<close>, as an f-string and the message of an error print a value.\<close>

fun cell_str :: "(real \<Rightarrow> string) \<Rightarrow> cell \<Rightarrow> string" where
  "cell_str fmt (NumV r) = fmt r"
| "cell_str fmt (StrV v) = v"
| "cell_str fmt NaN = ''nan''"
| "cell_str fmt NoneV = ''None''"

fun obj_missing :: "obj \<Rightarrow> bool" where
  "obj_missing (Str v) = False"
| "obj_missing y = True"

fun cells :: "series \<Rightarrow> cell list" where
  "cells (Numeric xs) = map num_cell xs"
| "cells (Object ys) = map str_cell ys"

text \<open>\<open>series == value\<close>, entry by entry: a missing value is equal to nothing, itself
  included.\<close>

fun cell_eq :: "cell \<Rightarrow> cell \<Rightarrow> bool" where
  "cell_eq NaN b = False"
| "cell_eq NoneV b = False"
| "cell_eq a NaN = False"
| "cell_eq a NoneV = False"
| "cell_eq a b = (a = b)"

definition series_eq :: "series \<Rightarrow> cell \<Rightarrow> bool list" where
  "series_eq s v = map (\<lambda>x. cell_eq x v) (cells s)"

type_synonym row = "(string \<times> cell) list"

definition nrows :: "dataframe \<Rightarrow> nat" where
  "nrows df = (case df of [] \<Rightarrow> 0 | (name, s) # rest \<Rightarrow> length (cells s))"

definition row :: "dataframe \<Rightarrow> nat \<Rightarrow> row" where
  "row df i = map (\<lambda>(name, s). (name, cells s ! i)) df"

definition rows_of :: "dataframe \<Rightarrow> row list" where
  "rows_of df = map (row df) [0..<nrows df]"

text \<open>Every column of a pandas table has the same number of entries.\<close>

definition rectangular :: "dataframe \<Rightarrow> bool" where
  "rectangular df = list_all (\<lambda>(name, s). length (cells s) = nrows df) df"

section \<open>age\_splitter\<close>

text \<open>
  \<open>df[col_name] < age_threshold\<close> and \<open>df[col_name] >= age_threshold\<close>: a comparison with
  a missing value is false; comparing a string with a number raises TypeError, so that an
  object column passes only when all its entries are missing.
\<close>

fun less_than :: "series \<Rightarrow> real \<Rightarrow> error + bool list" where
  "less_than (Numeric xs) t = Inr (map (\<lambda>x. case x of None \<Rightarrow> False | Some v \<Rightarrow> v < t) xs)"
| "less_than (Object ys) t =
     (if list_all obj_missing ys then Inr (map (\<lambda>y. False) ys) else Inl TypeError)"

fun greater_equal :: "series \<Rightarrow> real \<Rightarrow> error + bool list" where
  "greater_equal (Numeric xs) t = Inr (map (\<lambda>x. case x of None \<Rightarrow> False | Some v \<Rightarrow> v \<ge> t) xs)"
| "greater_equal (Object ys) t =
     (if list_all obj_missing ys then Inr (map (\<lambda>y. False) ys) else Inl TypeError)"

definition age_splitter :: "dataframe \<Rightarrow> string \<Rightarrow> real \<Rightarrow> error + dataframe \<times> dataframe" where
  "age_splitter df col_name age_threshold =
     (case column df col_name of
        None \<Rightarrow> Inl (KeyError col_name)
      | Some s \<Rightarrow>
          (case less_than s age_threshold of
             Inl e \<Rightarrow> Inl e
           | Inr below \<Rightarrow>
               (case greater_equal s age_threshold of
                  Inl e \<Rightarrow> Inl e
                | Inr above_equal \<Rightarrow>
                    Inr (select_rows below df, select_rows above_equal df))))"

text \<open>What a row holds in a column, for stating on which side of the threshold it lies.\<close>

definition row_below :: "string \<Rightarrow> real \<Rightarrow> row \<Rightarrow> bool" where
  "row_below c t r = (case map_of r c of Some (NumV v) \<Rightarrow> v < t | _ \<Rightarrow> False)"

definition row_above_equal :: "string \<Rightarrow> real \<Rightarrow> row \<Rightarrow> bool" where
  "row_above_equal c t r = (case map_of r c of Some (NumV v) \<Rightarrow> v \<ge> t | _ \<Rightarrow> False)"

definition row_missing :: "string \<Rightarrow> row \<Rightarrow> bool" where
  "row_missing c r = (map_of r c = Some NaN)"

section \<open>effectSizer\<close>

text \<open>
  \<open>Series.astype(str)\<close> takes the number-to-string conversion of Python as the parameter
  \<open>fmt\<close>. In the pandas modelled here, that of the versions before 3, it turns a
  missing marker into its name, the string \<open>nan\<close> or \<open>None\<close>, so that the converted
  series has no missing entry left.
\<close>

fun obj_str :: "obj \<Rightarrow> string" where
  "obj_str (Str v) = v"
| "obj_str ObjNaN = ''nan''"
| "obj_str ObjNone = ''None''"

fun astype_str :: "(real \<Rightarrow> string) \<Rightarrow> series \<Rightarrow> string list" where
  "astype_str fmt (Numeric xs) = map (\<lambda>x. case x of None \<Rightarrow> ''nan'' | Some r \<Rightarrow> fmt r) xs"
| "astype_str fmt (Object ys) = map obj_str ys"

text \<open>\<open>str.strip()\<close>: the characters for which \<open>str.isspace\<close> holds are removed at both
  ends. Below 256 these are the twelve code points 9 to 13, 28 to 32, 133 and 160.\<close>

definition is_space :: "char \<Rightarrow> bool" where
  "is_space c = (c \<in> set [CHR 0x09, CHR 0x0A, CHR 0x0B, CHR 0x0C, CHR 0x0D,
                           CHR 0x1C, CHR 0x1D, CHR 0x1E, CHR 0x1F, CHR 0x20,
                           CHR 0x85, CHR 0xA0])"

definition strip :: "string \<Rightarrow> string" where
  "strip v = rev (dropWhile is_space (rev (dropWhile is_space v)))"

text \<open>\<open>Series.unique()\<close>: the distinct entries in the order in which they first occur;
  a missing entry is one of them.\<close>

fun unique :: "'a list \<Rightarrow> 'a list" where
  "unique [] = []"
| "unique (x # xs) = x # unique (removeAll x xs)"

text \<open>The numbers a reduction such as \<open>mean()\<close> works on: a column of strings raises
  TypeError, a column with nothing but missing entries counts as numeric.\<close>

fun float_values :: "series \<Rightarrow> error + num list" where
  "float_values (Numeric xs) = Inr xs"
| "float_values (Object ys) =
     (if list_all obj_missing ys then Inr (map (\<lambda>y. None) ys) else Inl TypeError)"

text \<open>The strings of \<open>df[cat_col].astype(str).str.strip()\<close>.\<close>

definition clean :: "(real \<Rightarrow> string) \<Rightarrow> series \<Rightarrow> string list" where
  "clean fmt s = map strip (astype_str fmt s)"

text \<open>\<open>t[name]\<close> on a table that a statement has built itself.\<close>

definition item :: "dataframe \<Rightarrow> string \<Rightarrow> error + series" where
  "item t name = (case column t name of None \<Rightarrow> Inl (KeyError name) | Some s \<Rightarrow> Inr s)"

section \<open>Statements on the caller's table\<close>

text \<open>
  A function receives its table by reference. A statement is a step from the caller's
  table to the value it yields, or the error it raises, and the caller's table after it;
  a raised error ends the function. \<open>getitem\<close> is \<open>df[name]\<close>, \<open>getrows\<close> is
  \<open>df[keep]\<close>, which builds a new table, \<open>number_columns\<close> is
  \<open>df.select_dtypes(include='number').columns\<close> and \<open>columns\<close> is \<open>df.columns\<close>: these
  read the table. \<open>setitem\<close> is the assignment \<open>df[name] = s\<close>, which writes into it.
  \<open>result\<close> is a statement on values of the function's own.
\<close>

type_synonym 'a step = "dataframe \<Rightarrow> (error + 'a) \<times> dataframe"

definition getitem :: "string \<Rightarrow> series step" where
  "getitem name df =
     (case column df name of None \<Rightarrow> (Inl (KeyError name), df) | Some s \<Rightarrow> (Inr s, df))"

definition setitem :: "string \<Rightarrow> series \<Rightarrow> unit step" where
  "setitem name s df = (Inr (), dict_set df name s)"

definition getrows :: "bool list \<Rightarrow> dataframe step" where
  "getrows keep df = (Inr (select_rows keep df), df)"

definition result :: "error + 'a \<Rightarrow> 'a step" where
  "result r df = (r, df)"

definition then_step :: "'a step \<Rightarrow> ('a \<Rightarrow> 'b step) \<Rightarrow> 'b step" where
  "then_step p f df =
     (case p df of (Inl e, df1) \<Rightarrow> (Inl e, df1) | (Inr x, df1) \<Rightarrow> f x df1)"

text \<open>age\_splitter, statement by statement.\<close>

definition age_splitter_call :: "string \<Rightarrow> real \<Rightarrow> (dataframe \<times> dataframe) step" where
  "age_splitter_call col_name age_threshold =
     then_step (getitem col_name) (\<lambda>s.
     then_step (result (less_than s age_threshold)) (\<lambda>below.
     then_step (getrows below) (\<lambda>df_below.
     then_step (getitem col_name) (\<lambda>s1.
     then_step (result (greater_equal s1 age_threshold)) (\<lambda>above_equal.
     then_step (getrows above_equal) (\<lambda>df_above_equal.
     result (Inr (df_below, df_above_equal))))))))"

text \<open>
  effectSizer, statement by statement. The first statement assigns the cleaned column into
  \<open>df\<close> itself; the distinct values are then read from the table, after \<open>dropna()\<close>.
\<close>

definition effectSizer_call ::
  "(real \<Rightarrow> string) \<Rightarrow> string \<Rightarrow> string \<Rightarrow> num step" where
  "effectSizer_call fmt num_col cat_col =
     then_step (getitem cat_col) (\<lambda>s.
     then_step (setitem cat_col (Object (map Str (clean fmt s)))) (\<lambda>u.
     then_step (getitem cat_col) (\<lambda>c.
       (let values = unique (filter (\<lambda>x. \<not> missing x) (cells c))
        in (case values of
              [v0, v1] \<Rightarrow>
                then_step (getitem cat_col) (\<lambda>c1.
                then_step (getrows (series_eq c1 v0)) (\<lambda>rows1.
                then_step (result (item rows1 num_col)) (\<lambda>g1.
                then_step (getitem cat_col) (\<lambda>c2.
                then_step (getrows (series_eq c2 v1)) (\<lambda>rows2.
                then_step (result (item rows2 num_col)) (\<lambda>g2.
                then_step (result (float_values g1)) (\<lambda>a.
                then_step (result (float_values g2)) (\<lambda>b.
                  (let mean_diff = nsub (series_mean a) (series_mean b);
                       pooled = pooled_std (series_std a) (series_std b)
                   in if pooled = Some 0 \<or> pooled = None then result (Inr (Some 0))
                      else result (Inr (ndiv mean_diff pooled)))))))))))
            | _ \<Rightarrow> result (Inl (ValueError cat_col (map (cell_str fmt) values))))))))"

definition effectSizer :: "(real \<Rightarrow> string) \<Rightarrow> dataframe \<Rightarrow> string \<Rightarrow> string \<Rightarrow> error + num" where
  "effectSizer fmt df num_col cat_col = fst (effectSizer_call fmt num_col cat_col df)"

text \<open>The value of the last statements of effectSizer, from the numbers of the two groups.\<close>

definition effect_size :: "num list \<Rightarrow> num list \<Rightarrow> num" where
  "effect_size a b =
     (let pooled = pooled_std (series_std a) (series_std b)
      in if pooled = Some 0 \<or> pooled = None then Some 0
         else ndiv (nsub (series_mean a) (series_mean b)) pooled)"

section \<open>CohortMetric\<close>

text \<open>
  What a statistics mapping can hold: the placeholder None, a number, the objects of pandas
  and the two nested dicts that cohortCompare stores. A series is its dtype, the labels of
  its index and its entries; a table is the labels of its index and its columns, each with
  its label, its dtype and its entries; an index is its labels. A dtype is given by its
  name, and a label is a number or a string. Dicts are association lists in insertion
  order, which is the order in which Python iterates over them.
\<close>

type_synonym dtype = string

datatype label = NumL real | StrL string

datatype pyval =
    PyNone
  | PyFloat num
  | PySeries dtype "label list" "cell list"
  | PyFrame "label list" "(label \<times> dtype \<times> cell list) list"
  | PyIndex "label list"
  | NumericStats "(string \<times> (string \<times> num) list) list"
  | Counts "(string \<times> (cell \<times> nat) list) list"

record cohort_metric =
  cohort_name :: string
  statistics :: "(string \<times> pyval) list"

definition CohortMetric :: "string \<Rightarrow> cohort_metric" where
  "CohortMetric name =
     \<lparr>cohort_name = name,
      statistics = [(''mean'', PyNone), (''median'', PyNone), (''std'', PyNone),
                    (''min'', PyNone), (''max'', PyNone)]\<rparr>"

definition set_statistic :: "string \<Rightarrow> cohort_metric \<Rightarrow> pyval \<Rightarrow> cohort_metric" where
  "set_statistic k m v = m\<lparr>statistics := dict_set (statistics m) k v\<rparr>"

definition setMean :: "cohort_metric \<Rightarrow> pyval \<Rightarrow> cohort_metric" where
  "setMean m new_mean = set_statistic ''mean'' m new_mean"

definition setMedian :: "cohort_metric \<Rightarrow> pyval \<Rightarrow> cohort_metric" where
  "setMedian m new_median = set_statistic ''median'' m new_median"

definition setStd :: "cohort_metric \<Rightarrow> pyval \<Rightarrow> cohort_metric" where
  "setStd m new_std = set_statistic ''std'' m new_std"

definition setMin :: "cohort_metric \<Rightarrow> pyval \<Rightarrow> cohort_metric" where
  "setMin m new_min = set_statistic ''min'' m new_min"

definition setMax :: "cohort_metric \<Rightarrow> pyval \<Rightarrow> cohort_metric" where
  "setMax m new_max = set_statistic ''max'' m new_max"

text \<open>
  \<open>a.equals(b)\<close> is a method of the objects of pandas; None, a float and a dict have no
  such method. It is false when \<open>b\<close> is not of the class of \<open>a\<close>. Two series are equal
  when they have the same dtype, the same index labels and the same entries, missing ones
  at the same places, where the two missing markers count as the same; two tables when they
  have the same index labels and the same columns, label by label, with the same dtype and
  the same entries; two indexes when they have the same labels.
\<close>

fun unmark :: "cell \<Rightarrow> cell" where
  "unmark NoneV = NaN"
| "unmark c = c"

definition same_entries :: "cell list \<Rightarrow> cell list \<Rightarrow> bool" where
  "same_entries v w = (map unmark v = map unmark w)"

definition same_columns ::
  "(label \<times> dtype \<times> cell list) list \<Rightarrow> (label \<times> dtype \<times> cell list) list \<Rightarrow> bool" where
  "same_columns cols cols' =
     (map (\<lambda>(l, d, v). (l, d, map unmark v)) cols = map (\<lambda>(l, d, v). (l, d, map unmark v)) cols')"

fun has_equals :: "pyval \<Rightarrow> bool" where
  "has_equals (PySeries d i v) = True"
| "has_equals (PyFrame i cols) = True"
| "has_equals (PyIndex i) = True"
| "has_equals v = False"

fun pandas_equals :: "pyval \<Rightarrow> pyval \<Rightarrow> bool" where
  "pandas_equals (PySeries d i v) (PySeries d' i' v') = (d = d' \<and> i = i' \<and> same_entries v v')"
| "pandas_equals (PyFrame i cols) (PyFrame i' cols') = (i = i' \<and> same_columns cols cols')"
| "pandas_equals (PyIndex i) (PyIndex i') = (i = i')"
| "pandas_equals a b = False"

text \<open>The loop of compare\_to over the entries of \<open>self.statistics\<close>. The method is looked
  up on the stored value before \<open>other.statistics[stat]\<close> is evaluated.\<close>

fun compare_loop :: "(string \<times> pyval) list \<Rightarrow> (string \<times> pyval) list \<Rightarrow> error + bool" where
  "compare_loop [] other = Inr True"
| "compare_loop ((stat, v) # rest) other =
     (if \<not> has_equals v then Inl AttributeError
      else (case map_of other stat of
              None \<Rightarrow> Inl (KeyError stat)
            | Some w \<Rightarrow> if \<not> pandas_equals v w then Inr False else compare_loop rest other))"

definition compare_to :: "cohort_metric \<Rightarrow> cohort_metric \<Rightarrow> error + bool" where
  "compare_to self other = compare_loop (statistics self) (statistics other)"

section \<open>cohortCompare\<close>

definition default_statistics :: "string list" where
  "default_statistics = [''mean'', ''median'', ''std'', ''min'', ''max'']"

text \<open>\<open>df.select_dtypes(include='number').columns\<close> and the columns that are not among them.\<close>

fun is_numeric :: "series \<Rightarrow> bool" where
  "is_numeric (Numeric xs) = True"
| "is_numeric (Object ys) = False"

definition numeric_cols :: "dataframe \<Rightarrow> string list" where
  "numeric_cols df = map fst (filter (\<lambda>(name, s). is_numeric s) df)"

definition categorical_cols :: "dataframe \<Rightarrow> string list" where
  "categorical_cols df = filter (\<lambda>col. col \<notin> set (numeric_cols df)) (map fst df)"

text \<open>The label \<open>f"{cohort_col}={cohort_value}"\<close>.\<close>

definition cohort_label :: "(real \<Rightarrow> string) \<Rightarrow> string \<Rightarrow> cell \<Rightarrow> string" where
  "cohort_label fmt cohort_col cohort_value = cohort_col @ ''='' @ cell_str fmt cohort_value"

text \<open>The dict of one numeric column: the five tests on the argument \<open>statistics\<close>
  (here \<open>requested\<close>), in the order of the source.\<close>

definition stats_for :: "string list \<Rightarrow> num list \<Rightarrow> (string \<times> num) list" where
  "stats_for requested series =
     (let d0 = [];
          d1 = (if ''mean'' \<in> set requested then dict_set d0 ''mean'' (series_mean series) else d0);
          d2 = (if ''median'' \<in> set requested then dict_set d1 ''median'' (series_median series) else d1);
          d3 = (if ''std'' \<in> set requested then dict_set d2 ''std'' (series_std series) else d2);
          d4 = (if ''min'' \<in> set requested then dict_set d3 ''min'' (series_min series) else d3);
          d5 = (if ''max'' \<in> set requested then dict_set d4 ''max'' (series_max series) else d4)
      in d5)"

text \<open>The loop over \<open>numeric_cols\<close>, filling \<open>stats_dict\<close>.\<close>

fun numeric_stats_loop ::
  "dataframe \<Rightarrow> string list \<Rightarrow> string list \<Rightarrow> (string \<times> (string \<times> num) list) list
   \<Rightarrow> error + (string \<times> (string \<times> num) list) list" where
  "numeric_stats_loop cohort_df requested [] stats_dict = Inr stats_dict"
| "numeric_stats_loop cohort_df requested (num_col # cols) stats_dict =
     (case column cohort_df num_col of
        None \<Rightarrow> Inl (KeyError num_col)
      | Some s \<Rightarrow>
          (case float_values s of
             Inl e \<Rightarrow> Inl e
           | Inr series \<Rightarrow>
               numeric_stats_loop cohort_df requested cols
                 (dict_set stats_dict num_col (stats_for requested series))))"

text \<open>\<open>Series.value_counts().to_dict()\<close>: every value that is present, with the number of
  its occurrences; missing entries are not counted. The dict is only read by key here,
  and its keys stand in the order of first occurrence.\<close>

definition value_counts :: "series \<Rightarrow> (cell \<times> nat) list" where
  "value_counts s =
     (let vs = filter (\<lambda>c. \<not> missing c) (cells s)
      in map (\<lambda>v. (v, count_list vs v)) (unique vs))"

text \<open>The loop over \<open>categorical_cols\<close>, filling \<open>counts\<close>.\<close>

fun counts_loop ::
  "dataframe \<Rightarrow> string list \<Rightarrow> (string \<times> (cell \<times> nat) list) list
   \<Rightarrow> error + (string \<times> (cell \<times> nat) list) list" where
  "counts_loop cohort_df [] counts = Inr counts"
| "counts_loop cohort_df (cat_col # cols) counts =
     (case column cohort_df cat_col of
        None \<Rightarrow> Inl (KeyError cat_col)
      | Some s \<Rightarrow> counts_loop cohort_df cols (dict_set counts cat_col (value_counts s)))"

text \<open>The rows of one cohort, and the body of the inner loop of cohortCompare: the metric
  of one value of one grouping column.\<close>

definition cohort_rows :: "series \<Rightarrow> cell \<Rightarrow> bool list" where
  "cohort_rows s cohort_value = series_eq s cohort_value"

definition cohort_metric_of ::
  "(real \<Rightarrow> string) \<Rightarrow> dataframe \<Rightarrow> string list \<Rightarrow> string \<Rightarrow> series \<Rightarrow> cell
   \<Rightarrow> error + cohort_metric" where
  "cohort_metric_of fmt df requested cohort_col s cohort_value =
     (let cohort_df = select_rows (cohort_rows s cohort_value) df;
          metric = CohortMetric (cohort_label fmt cohort_col cohort_value)
      in (case numeric_stats_loop cohort_df requested (numeric_cols df) [] of
            Inl e \<Rightarrow> Inl e
          | Inr stats_dict \<Rightarrow>
              let metric1 = set_statistic ''numeric_stats'' metric (NumericStats stats_dict)
              in (case counts_loop cohort_df (categorical_cols df) [] of
                    Inl e \<Rightarrow> Inl e
                  | Inr counts \<Rightarrow> Inr (set_statistic ''counts'' metric1 (Counts counts)))))"

fun values_loop ::
  "(real \<Rightarrow> string) \<Rightarrow> dataframe \<Rightarrow> string list \<Rightarrow> string \<Rightarrow> series \<Rightarrow> cell list
   \<Rightarrow> (string \<times> cohort_metric) list \<Rightarrow> error + (string \<times> cohort_metric) list" where
  "values_loop fmt df requested cohort_col s [] results = Inr results"
| "values_loop fmt df requested cohort_col s (cohort_value # vs) results =
     (case cohort_metric_of fmt df requested cohort_col s cohort_value of
        Inl e \<Rightarrow> Inl e
      | Inr metric \<Rightarrow>
          values_loop fmt df requested cohort_col s vs
            (dict_set results (cohort_label fmt cohort_col cohort_value) metric))"

fun cohorts_loop ::
  "(real \<Rightarrow> string) \<Rightarrow> dataframe \<Rightarrow> string list \<Rightarrow> string list
   \<Rightarrow> (string \<times> cohort_metric) list \<Rightarrow> error + (string \<times> cohort_metric) list" where
  "cohorts_loop fmt df requested [] results = Inr results"
| "cohorts_loop fmt df requested (cohort_col # cols) results =
     (case column df cohort_col of
        None \<Rightarrow> Inl (KeyError cohort_col)
      | Some s \<Rightarrow>
          (case values_loop fmt df requested cohort_col s (unique (cells s)) results of
             Inl e \<Rightarrow> Inl e
           | Inr results1 \<Rightarrow> cohorts_loop fmt df requested cols results1))"

definition cohortCompare ::
  "(real \<Rightarrow> string) \<Rightarrow> dataframe \<Rightarrow> string list \<Rightarrow> string list
   \<Rightarrow> error + (string \<times> cohort_metric) list" where
  "cohortCompare fmt df cohorts requested = cohorts_loop fmt df requested cohorts []"

text \<open>
  cohortCompare, statement by statement, on the caller's table; the dicts of one cohort are
  filled from the table of the cohort, which the function has built itself.
\<close>

definition number_columns :: "string list step" where
  "number_columns df = (Inr (numeric_cols df), df)"

definition columns :: "string list step" where
  "columns df = (Inr (map fst df), df)"

definition cohort_metric_call ::
  "(real \<Rightarrow> string) \<Rightarrow> string list \<Rightarrow> string list \<Rightarrow> string list \<Rightarrow> string \<Rightarrow> cell
   \<Rightarrow> cohort_metric step" where
  "cohort_metric_call fmt requested numeric categorical cohort_col cohort_value =
     then_step (getitem cohort_col) (\<lambda>s.
     then_step (getrows (series_eq s cohort_value)) (\<lambda>cohort_df.
       (let metric = CohortMetric (cohort_label fmt cohort_col cohort_value)
        in then_step (result (numeric_stats_loop cohort_df requested numeric [])) (\<lambda>stats_dict.
             (let metric1 = set_statistic ''numeric_stats'' metric (NumericStats stats_dict)
              in then_step (result (counts_loop cohort_df categorical [])) (\<lambda>counts.
                   result (Inr (set_statistic ''counts'' metric1 (Counts counts)))))))))"

fun values_loop_call ::
  "(real \<Rightarrow> string) \<Rightarrow> string list \<Rightarrow> string list \<Rightarrow> string list \<Rightarrow> string \<Rightarrow> cell list
   \<Rightarrow> (string \<times> cohort_metric) list \<Rightarrow> (string \<times> cohort_metric) list step" where
  "values_loop_call fmt requested numeric categorical cohort_col [] results df =
     (Inr results, df)"
| "values_loop_call fmt requested numeric categorical cohort_col (cohort_value # vs) results df =
     (case cohort_metric_call fmt requested numeric categorical cohort_col cohort_value df of
        (Inl e, df1) \<Rightarrow> (Inl e, df1)
      | (Inr metric, df1) \<Rightarrow>
          values_loop_call fmt requested numeric categorical cohort_col vs
            (dict_set results (cohort_label fmt cohort_col cohort_value) metric) df1)"

fun cohorts_loop_call ::
  "(real \<Rightarrow> string) \<Rightarrow> string list \<Rightarrow> string list \<Rightarrow> string list \<Rightarrow> string list
   \<Rightarrow> (string \<times> cohort_metric) list \<Rightarrow> (string \<times> cohort_metric) list step" where
  "cohorts_loop_call fmt requested numeric categorical [] results df = (Inr results, df)"
| "cohorts_loop_call fmt requested numeric categorical (cohort_col # cols) results df =
     (case getitem cohort_col df of
        (Inl e, df1) \<Rightarrow> (Inl e, df1)
      | (Inr s, df1) \<Rightarrow>
          (case values_loop_call fmt requested numeric categorical cohort_col (unique (cells s))
                  results df1 of
             (Inl e, df2) \<Rightarrow> (Inl e, df2)
           | (Inr results1, df2) \<Rightarrow>
               cohorts_loop_call fmt requested numeric categorical cols results1 df2))"

definition cohortCompare_call ::
  "(real \<Rightarrow> string) \<Rightarrow> string list \<Rightarrow> string list \<Rightarrow> (string \<times> cohort_metric) list step" where
  "cohortCompare_call fmt cohorts requested =
     then_step number_columns (\<lambda>numeric.
     then_step columns (\<lambda>all_cols.
       (let categorical = filter (\<lambda>col. col \<notin> set numeric) all_cols
        in cohorts_loop_call fmt requested numeric categorical cohorts [])))"

text \<open>A metric filled through the five setters, one after the other.\<close>

definition five_slot ::
  "string \<Rightarrow> pyval \<Rightarrow> pyval \<Rightarrow> pyval \<Rightarrow> pyval \<Rightarrow> pyval \<Rightarrow> cohort_metric" where
  "five_slot name new_mean new_median new_std new_min new_max =
     setMax (setMin (setStd (setMedian (setMean (CohortMetric name) new_mean) new_median) new_std)
       new_min) new_max"

text \<open>
  Reading a result: \<open>statistic\<close> is the statistic a name stands for,
  \<open>numeric_stat m col k\<close> is \<open>m.statistics["numeric_stats"][col][k]\<close> and
  \<open>count_of m col v\<close> is \<open>m.statistics["counts"][col][v]\<close>, None when a key is not there.
\<close>

definition statistic :: "string \<Rightarrow> num list \<Rightarrow> num option" where
  "statistic k series =
     (if k = ''mean'' then Some (series_mean series)
      else if k = ''median'' then Some (series_median series)
      else if k = ''std'' then Some (series_std series)
      else if k = ''min'' then Some (series_min series)
      else if k = ''max'' then Some (series_max series)
      else None)"

definition numeric_stat :: "cohort_metric \<Rightarrow> string \<Rightarrow> string \<Rightarrow> num option" where
  "numeric_stat m col k =
     (case map_of (statistics m) ''numeric_stats'' of
        Some (NumericStats ns) \<Rightarrow> (case map_of ns col of Some d \<Rightarrow> map_of d k | None \<Rightarrow> None)
      | _ \<Rightarrow> None)"

definition count_of :: "cohort_metric \<Rightarrow> string \<Rightarrow> cell \<Rightarrow> nat option" where
  "count_of m col v =
     (case map_of (statistics m) ''counts'' of
        Some (Counts cs) \<Rightarrow> (case map_of cs col of Some d \<Rightarrow> map_of d v | None \<Rightarrow> None)
      | _ \<Rightarrow> None)"

section \<open>Example tables\<close>

text \<open>The examples have no number in a column that is turned into strings, so that the
  conversion of numbers is never called on them.\<close>

definition no_numbers :: "real \<Rightarrow> string" where
  "no_numbers r = []"

text \<open>Objects of pandas for the slots of a metric: the means of two columns as a series of
  floats, the same numbers as a series of integers, and standard deviations with a missing
  one.\<close>

definition means :: pyval where
  "means = PySeries ''float64'' [StrL ''age'', StrL ''val''] [NumV 1, NumV 2]"

definition whole_means :: pyval where
  "whole_means = PySeries ''int64'' [StrL ''age'', StrL ''val''] [NumV 1, NumV 2]"

definition deviations :: pyval where
  "deviations = PySeries ''float64'' [StrL ''age'', StrL ''val''] [NaN, NumV 1]"

definition people :: dataframe where
  "people = [(''age'', Numeric [Some 30, None, Some 10, Some 20]),
             (''name'', Object [Str ''ann'', Str ''bob'', ObjNaN, Str ''dan''])]"

definition scores :: dataframe where
  "scores = [(''val'', Numeric [Some 1, Some 2, Some 3, Some 4, Some 5, Some 6]),
             (''group'', Object [Str ''x'', Str '' x'', Str ''x '', Str ''y'', Str ''y'', Str ''y''])]"

definition pair :: dataframe where
  "pair = [(''val'', Numeric [Some 1, Some 2]), (''cat'', Object [Str ''a'', Str ''b''])]"

definition measurements :: dataframe where
  "measurements =
     [(''group'', Object [Str ''x'', Str ''x'', Str ''x'', Str ''y'', Str ''y'', Str ''y'']),
      (''val'', Numeric [Some 1, Some 2, Some 3, Some 4, Some 5, Some 6])]"

definition survey :: dataframe where
  "survey =
     [(''group'', Object [Str ''k'', Str ''k'', Str ''k'', Str ''j'']),
      (''cat'', Object [Str ''a'', Str ''a'', Str ''b'', Str ''a'']),
      (''val'', Numeric [Some 1, Some 2, Some 3, Some 9])]"

definition with_missing_group :: dataframe where
  "with_missing_group =
     [(''group'', Object [Str ''x'', ObjNaN, Str ''x'']),
      (''val'', Numeric [Some 1, Some 2, Some 3])]"

definition with_none_group :: dataframe where
  "with_none_group =
     [(''group'', Object [Str ''x'', ObjNone]),
      (''val'', Numeric [Some 1, Some 2])]"

definition with_missing_category :: dataframe where
  "with_missing_category =
     [(''val'', Numeric [Some 1, Some 2, Some 3, Some 0, Some 4, Some 5, Some 6]),
      (''cat'', Object [Str ''a'', Str ''a'', Str ''a'', ObjNaN, Str ''b'', Str ''b'', Str ''b''])]"

definition without_missing_category :: dataframe where
  "without_missing_category =
     [(''val'', Numeric [Some 1, Some 2, Some 3, Some 4, Some 5, Some 6]),
      (''cat'', Object [Str ''a'', Str ''a'', Str ''a'', Str ''b'', Str ''b'', Str ''b''])]"

section \<open>Properties of cohenEffectSize\<close>

lemma present_map_Some [simp]: "present (map Some vs) = vs"
  by (induction vs) simp_all

lemma dropna_idem: "dropna (dropna xs) = dropna xs"
  by (simp add: dropna_def)

lemma nadd_commute: "nadd a b = nadd b a"
  by (cases a; cases b) simp_all

lemma pooled_std_commute: "pooled_std s1 s2 = pooled_std s2 s1"
  by (simp add: pooled_std_def nadd_commute)

lemma series_mean_present: "present xs \<noteq> [] \<Longrightarrow> \<exists>m. series_mean xs = Some m"
  by (simp add: series_mean_def Let_def)

text \<open>
  Claim C7. cohenEffectSize drops the missing values of each sample on its own (its result
  is that of the two cleaned samples); when a cleaned sample is empty the result is NaN,
  which is no number, zero included; otherwise a pooled standard deviation of zero gives
  exactly 0.
\<close>

theorem cohenEffectSize_undefined_or_zero:
  "cohenEffectSize g1 g2 = cohenEffectSize (dropna g1) (dropna g2)
   \<and> (dropna g1 = [] \<or> dropna g2 = [] \<longrightarrow>
        cohenEffectSize g1 g2 = None \<and> (\<forall>x. cohenEffectSize g1 g2 \<noteq> Some x))
   \<and> (dropna g1 \<noteq> [] \<and> dropna g2 \<noteq> []
        \<and> pooled_std (series_std (dropna g1)) (series_std (dropna g2)) = Some 0 \<longrightarrow>
        cohenEffectSize g1 g2 = Some 0)"
  by (simp add: cohenEffectSize_def dropna_idem Let_def)

theorem cohenEffectSize_undefined_or_zero_witness:
  "cohenEffectSize [None, None] [Some 1, Some 2] = None
   \<and> cohenEffectSize [Some 4, None, Some 4] [Some 7, Some 7, None] = Some 0"
proof -
  have e: "dropna [None, None :: num] = []"
    by (simp add: dropna_def)
  have a: "dropna [Some 4, None, Some 4 :: num] \<noteq> []"
    and b: "dropna [Some 7, Some 7, None :: num] \<noteq> []"
    by (simp_all add: dropna_def)
  have p: "pooled_std (series_std (dropna [Some 4, None, Some 4]))
             (series_std (dropna [Some 7, Some 7, None])) = Some 0"
    by (simp add: dropna_def series_std_def pooled_std_def nsq_def nsqrt_def Let_def)
  have "cohenEffectSize [None, None] [Some 1, Some 2] = None"
    using cohenEffectSize_undefined_or_zero [of "[None, None]" "[Some 1, Some 2]"] e
    by blast
  moreover have "cohenEffectSize [Some 4, None, Some 4] [Some 7, Some 7, None] = Some 0"
    using cohenEffectSize_undefined_or_zero [of "[Some 4, None, Some 4]" "[Some 7, Some 7, None]"]
      a b p
    by blast
  ultimately show ?thesis
    by blast
qed

text \<open>
  Claim C9. When both cleaned samples are non-empty and the pooled standard deviation is a
  number other than zero, the effect size of (g1, g2) is a number and that of (g2, g1) is
  its negation.
\<close>

theorem cohenEffectSize_antisymmetric:
  assumes "dropna g1 \<noteq> []" and "dropna g2 \<noteq> []"
    and "pooled_std (series_std (dropna g1)) (series_std (dropna g2)) = Some p"
    and "p \<noteq> 0"
  shows "\<exists>d. cohenEffectSize g1 g2 = Some d \<and> cohenEffectSize g2 g1 = Some (- d)"
proof -
  from assms(1) have "present (dropna g1) \<noteq> []"
    by (auto simp: dropna_def)
  then obtain m1 where m1: "series_mean (dropna g1) = Some m1"
    using series_mean_present by blast
  from assms(2) have "present (dropna g2) \<noteq> []"
    by (auto simp: dropna_def)
  then obtain m2 where m2: "series_mean (dropna g2) = Some m2"
    using series_mean_present by blast
  have q: "pooled_std (series_std (dropna g2)) (series_std (dropna g1)) = Some p"
    using assms(3) by (simp add: pooled_std_commute)
  have "cohenEffectSize g1 g2 = Some ((m1 - m2) / p)"
    using assms m1 m2 by (simp add: cohenEffectSize_def Let_def)
  moreover have "cohenEffectSize g2 g1 = Some ((m2 - m1) / p)"
    using assms(1,2,4) q m1 m2 by (simp add: cohenEffectSize_def Let_def)
  moreover have "(m2 - m1) / p = - ((m1 - m2) / p)"
    using minus_divide_left [of "m1 - m2" p] by simp
  ultimately show ?thesis
    by simp
qed

theorem cohenEffectSize_antisymmetric_witness:
  "cohenEffectSize [Some 1, Some 2, Some 3] [Some 4, Some 5, Some 6] = Some (- 3)
   \<and> cohenEffectSize [Some 4, Some 5, Some 6] [Some 1, Some 2, Some 3] = Some 3"
proof -
  have a: "dropna [Some 1, Some 2, Some 3 :: num] \<noteq> []"
    and b: "dropna [Some 4, Some 5, Some 6 :: num] \<noteq> []"
    by (simp_all add: dropna_def)
  have p: "pooled_std (series_std (dropna [Some 1, Some 2, Some 3]))
             (series_std (dropna [Some 4, Some 5, Some 6])) = Some 1"
    by (simp add: dropna_def series_std_def pooled_std_def nsq_def nsqrt_def Let_def)
  have v: "cohenEffectSize [Some 1, Some 2, Some 3] [Some 4, Some 5, Some 6] = Some (- 3)"
    by (simp add: cohenEffectSize_def dropna_def series_mean_def series_std_def
        pooled_std_def nsq_def nsqrt_def Let_def)
  from cohenEffectSize_antisymmetric [OF a b p] v show ?thesis
    by auto
qed

section \<open>Properties of age\_splitter\<close>

lemma take_rows_map: "take_rows keep (map f xs) = map f (take_rows keep xs)"
  by (induction keep xs rule: take_rows.induct) simp_all

lemma take_rows_nth:
  "length keep = length xs \<Longrightarrow> take_rows keep xs = map ((!) xs) (take_rows keep [0..<length xs])"
proof (induction keep xs rule: list_induct2')
  case (4 b bs x xs)
  then have ih: "take_rows bs xs = map ((!) xs) (take_rows bs [0..<length xs])" by simp
  have u: "[0..<length (x # xs)] = 0 # map Suc [0..<length xs]"
    by (simp add: upt_conv_Cons map_Suc_upt del: upt_Suc)
  show ?case
    by (simp only: u) (simp add: take_rows_map ih comp_def)
qed simp_all

lemma take_rows_filter:
  "length keep = length xs \<Longrightarrow> \<forall>i<length xs. keep ! i = P (xs ! i) \<Longrightarrow> take_rows keep xs = filter P xs"
proof (induction keep xs rule: list_induct2')
  case (4 b bs x xs)
  then show ?case by (auto simp: nth_Cons split: nat.splits) 
qed simp_all

lemma cells_series_take: "cells (series_take keep s) = take_rows keep (cells s)"
  by (cases s) (simp_all add: take_rows_map)

lemma column_select_rows:
  "column (select_rows keep df) c = map_option (series_take keep) (column df c)"
  by (induction df) (auto simp: column_def select_rows_def)

lemma map_of_row: "map_of (row df i) c = map_option (\<lambda>s. cells s ! i) (column df c)"
  by (induction df) (auto simp: column_def row_def)

lemma nrows_select_rows:
  assumes "length keep = nrows df"
  shows "nrows (select_rows keep df) = length (take_rows keep [0..<nrows df])"
proof (cases df)
  case Nil
  then show ?thesis by (simp add: nrows_def select_rows_def)
next
  case (Cons p rest)
  obtain name s where p: "p = (name, s)" by (cases p)
  from assms Cons p have l: "length keep = length (cells s)"
    by (simp add: nrows_def)
  have "nrows (select_rows keep df) = length (take_rows keep (cells s))"
    using Cons p by (simp add: nrows_def select_rows_def cells_series_take)
  also have "\<dots> = length (take_rows keep [0..<length (cells s)])"
    by (subst take_rows_nth [OF l]) simp
  finally show ?thesis using Cons p by (simp add: nrows_def)
qed

lemma row_select_rows:
  assumes r: "rectangular df" and l: "length keep = nrows df"
    and j: "j < length (take_rows keep [0..<nrows df])"
  shows "row (select_rows keep df) j = row df (take_rows keep [0..<nrows df] ! j)"
proof -
  have "cells (series_take keep s) ! j = cells s ! (take_rows keep [0..<nrows df] ! j)"
    if "(name, s) \<in> set df" for name s
  proof -
    from r that have n: "length (cells s) = nrows df"
      by (auto simp: rectangular_def list_all_iff)
    with l have "take_rows keep (cells s) = map ((!) (cells s)) (take_rows keep [0..<nrows df])"
      using take_rows_nth [of keep "cells s"] by simp
    with j show ?thesis by (simp add: cells_series_take)
  qed
  then show ?thesis
    by (auto simp: row_def select_rows_def)
qed

lemma rows_of_select_rows:
  assumes r: "rectangular df" and l: "length keep = nrows df"
  shows "rows_of (select_rows keep df) = take_rows keep (rows_of df)"
proof -
  let ?P = "take_rows keep [0..<nrows df]"
  have "rows_of (select_rows keep df) = map (row (select_rows keep df)) [0..<length ?P]"
    by (simp add: rows_of_def nrows_select_rows [OF l])
  also have "\<dots> = map (\<lambda>j. row df (?P ! j)) [0..<length ?P]"
    using row_select_rows [OF r l] by simp
  also have "\<dots> = map (row df) (map ((!) ?P) [0..<length ?P])"
    by (simp add: comp_def)
  also have "\<dots> = map (row df) ?P"
    by (simp only: map_nth)
  also have "\<dots> = take_rows keep (rows_of df)"
    by (simp add: rows_of_def take_rows_map)
  finally show ?thesis .
qed

text \<open>
  Claim C6. For a table whose columns have equal length and a numeric column C, age\_splitter
  returns two tables: the rows of the first are the rows of the table with a number below
  the threshold in C, in their order, those of the second the rows with a number at or
  above it, in their order. No row with a missing C is in either; the two hold no row in
  common, and together they hold every row in which C is not missing, as often as the table does.
\<close>

theorem age_splitter_partition:
  assumes r: "rectangular df" and c: "column df col_name = Some (Numeric xs)"
  shows "\<exists>below above_equal.
           age_splitter df col_name t = Inr (below, above_equal)
         \<and> rows_of below = filter (row_below col_name t) (rows_of df)
         \<and> rows_of above_equal = filter (row_above_equal col_name t) (rows_of df)
         \<and> (\<forall>r\<in>set (rows_of below). row_below col_name t r)
         \<and> (\<forall>r\<in>set (rows_of above_equal). row_above_equal col_name t r)
         \<and> (\<forall>r\<in>set (rows_of df). row_missing col_name r \<longrightarrow>
               r \<notin> set (rows_of below) \<and> r \<notin> set (rows_of above_equal))
         \<and> set (rows_of below) \<inter> set (rows_of above_equal) = {}
         \<and> mset (rows_of below) + mset (rows_of above_equal)
             = mset (filter (\<lambda>r. \<not> row_missing col_name r) (rows_of df))"
proof -
  let ?lt = "map (\<lambda>x. case x of None \<Rightarrow> False | Some v \<Rightarrow> v < t) xs"
  let ?ge = "map (\<lambda>x. case x of None \<Rightarrow> False | Some v \<Rightarrow> v \<ge> t) xs"
  from c have "(col_name, Numeric xs) \<in> set df"
    by (auto simp: column_def dest: map_of_SomeD)
  with r have n: "length xs = nrows df"
    by (auto simp: rectangular_def list_all_iff)
  have cell: "map_of (rows_of df ! i) col_name = Some (num_cell (xs ! i))" if "i < nrows df" for i
    using that c n by (simp add: rows_of_def map_of_row)
  have v: "age_splitter df col_name t = Inr (select_rows ?lt df, select_rows ?ge df)"
    using c by (simp add: age_splitter_def)
  have b: "rows_of (select_rows ?lt df) = filter (row_below col_name t) (rows_of df)"
  proof -
    have "rows_of (select_rows ?lt df) = take_rows ?lt (rows_of df)"
      using rows_of_select_rows [OF r] n by simp
    also have "\<dots> = filter (row_below col_name t) (rows_of df)"
    proof (rule take_rows_filter)
      show "length ?lt = length (rows_of df)"
        using n by (simp add: rows_of_def)
      show "\<forall>i<length (rows_of df). ?lt ! i = row_below col_name t (rows_of df ! i)"
      proof (intro allI impI)
        fix i assume "i < length (rows_of df)"
        then have i: "i < nrows df" by (simp add: rows_of_def)
        with n cell [OF i] show "?lt ! i = row_below col_name t (rows_of df ! i)"
          by (cases "xs ! i") (simp_all add: row_below_def)
      qed
    qed
    finally show ?thesis .
  qed
  have a: "rows_of (select_rows ?ge df) = filter (row_above_equal col_name t) (rows_of df)"
  proof -
    have "rows_of (select_rows ?ge df) = take_rows ?ge (rows_of df)"
      using rows_of_select_rows [OF r] n by simp
    also have "\<dots> = filter (row_above_equal col_name t) (rows_of df)"
    proof (rule take_rows_filter)
      show "length ?ge = length (rows_of df)"
        using n by (simp add: rows_of_def)
      show "\<forall>i<length (rows_of df). ?ge ! i = row_above_equal col_name t (rows_of df ! i)"
      proof (intro allI impI)
        fix i assume "i < length (rows_of df)"
        then have i: "i < nrows df" by (simp add: rows_of_def)
        with n cell [OF i] show "?ge ! i = row_above_equal col_name t (rows_of df ! i)"
          by (cases "xs ! i") (simp_all add: row_above_equal_def)
      qed
    qed
    finally show ?thesis .
  qed
  have nb: "\<not> (row_below col_name t ro \<and> row_above_equal col_name t ro)" for ro
  proof (cases "map_of ro col_name")
    case None
    then show ?thesis by (simp add: row_below_def)
  next
    case (Some cl)
    then show ?thesis by (cases cl) (simp_all add: row_below_def row_above_equal_def)
  qed
  have d: "set (filter (row_below col_name t) rs) \<inter> set (filter (row_above_equal col_name t) rs) = {}"
    for rs
    using nb by auto
  have typed: "\<exists>x. map_of ro col_name = Some (num_cell x)" if "ro \<in> set (rows_of df)" for ro
  proof -
    from that obtain i where "i < length (rows_of df)" "ro = rows_of df ! i"
      by (auto simp: in_set_conv_nth)
    then show ?thesis using cell [of i] by (auto simp: rows_of_def)
  qed
  have u: "mset (filter (row_below col_name t) rs) + mset (filter (row_above_equal col_name t) rs)
           = mset (filter (\<lambda>r. \<not> row_missing col_name r) rs)"
    if "\<forall>ro\<in>set rs. \<exists>x. map_of ro col_name = Some (num_cell x)" for rs
    using that
  proof (induction rs)
    case Nil
    then show ?case by simp
  next
    case (Cons ro rs)
    then obtain x where x: "map_of ro col_name = Some (num_cell x)" by auto
    from Cons have ih: "mset (filter (row_below col_name t) rs) + mset (filter (row_above_equal col_name t) rs)
           = mset (filter (\<lambda>r. \<not> row_missing col_name r) rs)" by simp
    show ?case
      using x ih by (cases x) (auto simp: row_below_def row_above_equal_def row_missing_def)
  qed
  have m: "row_missing col_name ro \<Longrightarrow>
             \<not> row_below col_name t ro \<and> \<not> row_above_equal col_name t ro" for ro
    by (simp add: row_missing_def row_below_def row_above_equal_def)
  show ?thesis
    using v a b d [of "rows_of df"] u [of "rows_of df"] typed m by auto
qed

theorem age_splitter_partition_witness:
  "rectangular people \<and> column people ''age'' = Some (Numeric [Some 30, None, Some 10, Some 20])
   \<and> (\<exists>below above_equal.
         age_splitter people ''age'' 20 = Inr (below, above_equal)
       \<and> rows_of below = [[(''age'', NumV 10), (''name'', NaN)]]
       \<and> rows_of above_equal =
           [[(''age'', NumV 30), (''name'', StrV ''ann'')], [(''age'', NumV 20), (''name'', StrV ''dan'')]])"
proof -
  have r: "rectangular people"
    by (simp add: rectangular_def people_def nrows_def)
  have c: "column people ''age'' = Some (Numeric [Some 30, None, Some 10, Some 20])"
    by (simp add: column_def people_def)
  have rows: "rows_of people =
      [[(''age'', NumV 30), (''name'', StrV ''ann'')], [(''age'', NaN), (''name'', StrV ''bob'')],
       [(''age'', NumV 10), (''name'', NaN)], [(''age'', NumV 20), (''name'', StrV ''dan'')]]"
    by (simp add: rows_of_def nrows_def row_def people_def upt_rec)
  have f1: "filter (row_below ''age'' 20) (rows_of people) = [[(''age'', NumV 10), (''name'', NaN)]]"
    by (simp add: rows row_below_def)
  have f2: "filter (row_above_equal ''age'' 20) (rows_of people) =
      [[(''age'', NumV 30), (''name'', StrV ''ann'')], [(''age'', NumV 20), (''name'', StrV ''dan'')]]"
    by (simp add: rows row_above_equal_def)
  from age_splitter_partition [OF r c, of 20] r c f1 f2 show ?thesis
    by auto
qed


section \<open>Properties of the statements\<close>

lemma map_of_dict_set: "map_of (dict_set d k v) = (map_of d)(k \<mapsto> v)"
  by (induction d k v rule: dict_set.induct) auto

lemma column_dict_set:
  "column (dict_set df k v) c = (if c = k then Some v else column df c)"
  by (simp add: column_def map_of_dict_set)

lemma map_fst_dict_set:
  "k \<in> fst ` set d \<Longrightarrow> map fst (dict_set d k v) = map fst d"
  by (induction d k v rule: dict_set.induct) auto

lemma column_Some_fst: "column df c = Some s \<Longrightarrow> c \<in> fst ` set df"
  by (auto simp: column_def dest!: map_of_SomeD intro: rev_image_eqI)

text \<open>The statements of age\_splitter yield what the function on values yields, and leave
  the caller's table as it was.\<close>

lemma age_splitter_call_eq:
  "age_splitter_call col_name age_threshold df = (age_splitter df col_name age_threshold, df)"
  by (simp add: age_splitter_call_def age_splitter_def then_step_def getitem_def result_def
      getrows_def split: option.splits sum.splits)

text \<open>So do the statements of cohortCompare.\<close>

lemma cohort_metric_call_eq:
  "column df c = Some s \<Longrightarrow>
   cohort_metric_call fmt requested (numeric_cols df) (categorical_cols df) c v df =
     (cohort_metric_of fmt df requested c s v, df)"
  by (simp add: cohort_metric_call_def cohort_metric_of_def cohort_rows_def then_step_def
      getitem_def getrows_def result_def Let_def split: sum.splits)

lemma values_loop_call_eq:
  "column df c = Some s \<Longrightarrow>
   values_loop_call fmt requested (numeric_cols df) (categorical_cols df) c vs results df =
     (values_loop fmt df requested c s vs results, df)"
  by (induction vs arbitrary: results) (simp_all add: cohort_metric_call_eq split: sum.splits)

lemma cohorts_loop_call_eq:
  "cohorts_loop_call fmt requested (numeric_cols df) (categorical_cols df) cs results df =
     (cohorts_loop fmt df requested cs results, df)"
  by (induction cs arbitrary: results)
    (simp_all add: getitem_def values_loop_call_eq split: option.splits sum.splits)

lemma cohortCompare_call_eq:
  "cohortCompare_call fmt cohorts requested df = (cohortCompare fmt df cohorts requested, df)"
  using cohorts_loop_call_eq [of fmt requested df cohorts "[]"]
  by (simp add: cohortCompare_call_def cohortCompare_def then_step_def number_columns_def
      columns_def categorical_cols_def)

section \<open>Properties of effectSizer\<close>

lemma series_std_Some: "series_std xs = Some sd \<Longrightarrow> 2 \<le> length (present xs)"
  by (simp add: series_std_def Let_def split: if_splits)

lemma series_std_None: "series_std xs = None \<longleftrightarrow> length (present xs) < 2"
  by (simp add: series_std_def Let_def)

lemma pooled_std_value:
  "pooled_std (Some s1) (Some s2) = Some (sqrt ((s1\<^sup>2 + s2\<^sup>2) / 2))"
  by (simp add: pooled_std_def nsq_def nsqrt_def)

lemma pooled_std_None: "pooled_std s1 s2 = None \<longleftrightarrow> s1 = None \<or> s2 = None"
  by (cases s1; cases s2) (simp_all add: pooled_std_def nsq_def nsqrt_def)

lemma float_values_Inl: "float_values s = Inl e \<Longrightarrow> e = TypeError"
  by (cases s) (simp_all split: if_splits)

lemma unique_map_inj: "inj f \<Longrightarrow> unique (map f xs) = map f (unique xs)"
proof (induction xs rule: unique.induct)
  case 1
  then show ?case by simp
next
  case (2 x xs)
  have "removeAll (f x) (map f xs) = map f (removeAll x xs)"
    using 2(2) by (induction xs) (auto dest: injD)
  with 2 show ?case by simp
qed

lemma filter_present_strings: "filter (\<lambda>x. \<not> missing x) (map StrV vs) = map StrV vs"
  by (induction vs) simp_all

lemma series_eq_strings:
  "series_eq (Object (map Str vs)) (StrV v) = map (\<lambda>c. c = v) vs"
  by (simp add: series_eq_def comp_def)

text \<open>
  What the statements of effectSizer come to, when the categorical column exists: the
  cleaned strings are written into the table, and the distinct values are those of the
  cleaned strings.
\<close>

lemma list_shape:
  obtains "xs = []" | a where "xs = [a]" | a b where "xs = [a, b]"
  | a b c r where "xs = a # b # c # r"
proof (cases xs)
  case Nil
  then show ?thesis using that(1) by simp
next
  case xs: (Cons a ys)
  show ?thesis
  proof (cases ys)
    case Nil
    with xs show ?thesis using that(2) by simp
  next
    case ys: (Cons b zs)
    show ?thesis
    proof (cases zs)
      case Nil
      with xs ys show ?thesis using that(3) by simp
    next
      case (Cons c r)
      with xs ys show ?thesis using that(4) by simp
    qed
  qed
qed

lemma effectSizer_call_eq:
  assumes cat: "column df cat_col = Some s"
  shows "effectSizer_call fmt num_col cat_col df =
    (let cleaned = clean fmt s; df1 = dict_set df cat_col (Object (map Str cleaned))
     in ((case unique cleaned of
            [v0, v1] \<Rightarrow>
              (case column df1 num_col of
                 None \<Rightarrow> Inl (KeyError num_col)
               | Some ns \<Rightarrow>
                   (case float_values (series_take (map (\<lambda>c. c = v0) cleaned) ns) of
                      Inl e \<Rightarrow> Inl e
                    | Inr a \<Rightarrow>
                        (case float_values (series_take (map (\<lambda>c. c = v1) cleaned) ns) of
                           Inl e \<Rightarrow> Inl e
                         | Inr b \<Rightarrow> Inr (effect_size a b))))
          | vs \<Rightarrow> Inl (ValueError cat_col vs)), df1))"
proof -
  let ?cleaned = "clean fmt s"
  have vals: "unique (filter (\<lambda>x. \<not> missing x) (cells (Object (map Str ?cleaned))))
      = map StrV (unique ?cleaned)"
    by (simp add: comp_def filter_present_strings [unfolded comp_def]
        unique_map_inj [of StrV, unfolded comp_def] inj_def)
  have strs: "map (cell_str fmt \<circ> StrV) vs = vs" for vs
    by (induction vs) simp_all
  note defs = effectSizer_call_def then_step_def getitem_def setitem_def getrows_def result_def
    item_def column_dict_set column_select_rows series_eq_strings effect_size_def Let_def vals
    strs
  show ?thesis
  proof (cases "unique ?cleaned" rule: list_shape)
    case 1
    with cat show ?thesis by (simp add: defs del: cells.simps)
  next
    case (2 a)
    with cat show ?thesis by (simp add: defs del: cells.simps)
  next
    case (3 a b)
    with cat show ?thesis
      by (simp add: defs del: cells.simps split: option.splits sum.splits)
  next
    case (4 a b c r)
    with cat show ?thesis by (simp add: defs del: cells.simps)
  qed
qed

lemma snd_effectSizer_call:
  "snd (effectSizer_call fmt num_col cat_col df) =
     (case column df cat_col of
        None \<Rightarrow> df
      | Some s \<Rightarrow> dict_set df cat_col (Object (map Str (clean fmt s))))"
proof (cases "column df cat_col")
  case None
  then show ?thesis
    by (simp add: effectSizer_call_def then_step_def getitem_def)
next
  case (Some s)
  then show ?thesis
    by (simp add: effectSizer_call_eq Let_def)
qed

text \<open>
  When the cleaned strings of the categorical column have exactly two distinct values and
  the numeric column is another column of the table, effectSizer raises nothing: it returns
  0 when the pooled standard deviation is zero or NaN, as it is when a group has fewer than
  two numbers, and otherwise (mean1 - mean2) / sqrt ((std1^2 + std2^2) / 2), for the
  groups of the first and of the second distinct value.
\<close>

lemma effectSizer_on_two_strings:
  assumes cat: "column df cat_col = Some s"
    and two: "unique (clean fmt s) = [v0, v1]"
    and num: "column df num_col = Some (Numeric xs)" and ne: "num_col \<noteq> cat_col"
    and g1: "g1 = take_rows (map (\<lambda>c. c = v0) (clean fmt s)) xs"
    and g2: "g2 = take_rows (map (\<lambda>c. c = v1) (clean fmt s)) xs"
    and p: "p = pooled_std (series_std g1) (series_std g2)"
  shows "(p = Some 0 \<or> p = None \<longrightarrow> effectSizer fmt df num_col cat_col = Inr (Some 0))
       \<and> (length (present g1) < 2 \<or> length (present g2) < 2 \<longrightarrow>
            effectSizer fmt df num_col cat_col = Inr (Some 0))
       \<and> (p \<noteq> Some 0 \<and> p \<noteq> None \<longrightarrow>
            (\<exists>mean1 mean2 std1 std2.
               series_mean g1 = Some mean1 \<and> series_mean g2 = Some mean2
             \<and> series_std g1 = Some std1 \<and> series_std g2 = Some std2
             \<and> effectSizer fmt df num_col cat_col =
                 Inr (Some ((mean1 - mean2) / sqrt ((std1\<^sup>2 + std2\<^sup>2) / 2)))))"
proof -
  have v: "effectSizer fmt df num_col cat_col =
      (if p = Some 0 \<or> p = None then Inr (Some 0)
       else Inr (ndiv (nsub (series_mean g1) (series_mean g2)) p))"
    using two num ne g1 g2 p
    by (simp add: effectSizer_def effectSizer_call_eq [OF cat] Let_def column_dict_set
        effect_size_def)
  have zero: "p = Some 0 \<or> p = None \<longrightarrow> effectSizer fmt df num_col cat_col = Inr (Some 0)"
    using v by simp
  have few: "length (present g1) < 2 \<or> length (present g2) < 2 \<longrightarrow> p = None"
    using p by (auto simp: pooled_std_None series_std_None)
  have formula: "\<exists>mean1 mean2 std1 std2.
               series_mean g1 = Some mean1 \<and> series_mean g2 = Some mean2
             \<and> series_std g1 = Some std1 \<and> series_std g2 = Some std2
             \<and> effectSizer fmt df num_col cat_col =
                 Inr (Some ((mean1 - mean2) / sqrt ((std1\<^sup>2 + std2\<^sup>2) / 2)))"
    if nz: "p \<noteq> Some 0" "p \<noteq> None"
  proof -
    from nz p obtain std1 std2 where s: "series_std g1 = Some std1" "series_std g2 = Some std2"
      by (auto simp: pooled_std_None)
    then have "present g1 \<noteq> []" "present g2 \<noteq> []"
      by (auto dest!: series_std_Some)
    then obtain mean1 mean2 where m: "series_mean g1 = Some mean1" "series_mean g2 = Some mean2"
      using series_mean_present by blast
    have "p = Some (sqrt ((std1\<^sup>2 + std2\<^sup>2) / 2))"
      using p s by (simp add: pooled_std_value)
    with v nz m have "effectSizer fmt df num_col cat_col =
        Inr (Some ((mean1 - mean2) / sqrt ((std1\<^sup>2 + std2\<^sup>2) / 2)))"
      by simp
    with s m show ?thesis by blast
  qed
  from zero few formula show ?thesis by blast
qed

text \<open>What effectSizer does test: ValueError is raised exactly when the number of distinct
  strings of the cleaned column is not two.\<close>

lemma effectSizer_raises_iff:
  assumes "column df cat_col = Some s"
  shows "(\<exists>vs. effectSizer fmt df num_col cat_col = Inl (ValueError cat_col vs))
     \<longleftrightarrow> length (unique (clean fmt s)) \<noteq> 2"
  by (cases "unique (clean fmt s)" rule: list_shape)
    (auto simp: effectSizer_def effectSizer_call_eq [OF assms] Let_def
      split: option.splits sum.splits dest: float_values_Inl)

lemma strip_examples:
  "strip ''x'' = ''x''" "strip '' x'' = ''x''" "strip ''x '' = ''x''" "strip ''y'' = ''y''"
  "strip ''a'' = ''a''" "strip ''b'' = ''b''" "strip ''nan'' = ''nan''"
  by (simp_all add: strip_def is_space_def)

lemma clean_scores:
  "clean no_numbers (Object [Str ''x'', Str '' x'', Str ''x '', Str ''y'', Str ''y'', Str ''y''])
     = [''x'', ''x'', ''x'', ''y'', ''y'', ''y'']"
  by (simp add: clean_def strip_examples)

lemma std_examples:
  "series_mean [Some 1, Some 2, Some 3] = Some 2" "series_mean [Some 4, Some 5, Some 6] = Some 5"
  "series_std [Some 1, Some 2, Some 3] = Some 1" "series_std [Some 4, Some 5, Some 6] = Some 1"
  by (simp_all add: series_mean_def series_std_def Let_def)

lemma effectSizer_examples:
  "effectSizer no_numbers scores ''val'' ''group'' = Inr (Some (- 3))"
  "effectSizer no_numbers pair ''val'' ''cat'' = Inr (Some 0)"
proof -
  have "column scores ''group'' =
      Some (Object [Str ''x'', Str '' x'', Str ''x '', Str ''y'', Str ''y'', Str ''y''])"
    by (simp add: column_def scores_def)
  from effectSizer_call_eq [OF this, of no_numbers "''val''"]
  show "effectSizer no_numbers scores ''val'' ''group'' = Inr (Some (- 3))"
    by (simp add: effectSizer_def clean_scores Let_def column_dict_set column_def scores_def
        effect_size_def std_examples pooled_std_value)
  have "column pair ''cat'' = Some (Object [Str ''a'', Str ''b''])"
    by (simp add: column_def pair_def)
  from effectSizer_call_eq [OF this, of no_numbers "''val''"]
  show "effectSizer no_numbers pair ''val'' ''cat'' = Inr (Some 0)"
    by (simp add: effectSizer_def clean_def strip_examples Let_def column_dict_set column_def
        pair_def effect_size_def series_std_def pooled_std_None)
qed

text \<open>
  Claim C5, as amended. The statements of age\_splitter and of cohortCompare leave the
  caller's table as it was (cohenEffectSize takes no table). effectSizer assigns into it:
  afterwards the categorical column holds the cleaned strings, while the names of the
  columns, their order and every other column are as before; when the categorical column
  does not exist the table is unchanged.
\<close>

theorem effectSizer_frame:
  "snd (age_splitter_call col_name age_threshold df) = df
   \<and> snd (cohortCompare_call fmt cohorts requested df) = df
   \<and> map fst (snd (effectSizer_call fmt num_col cat_col df)) = map fst df
   \<and> (\<forall>c. c \<noteq> cat_col \<longrightarrow>
          column (snd (effectSizer_call fmt num_col cat_col df)) c = column df c)
   \<and> (\<forall>s. column df cat_col = Some s \<longrightarrow>
          column (snd (effectSizer_call fmt num_col cat_col df)) cat_col
            = Some (Object (map Str (clean fmt s))))
   \<and> (column df cat_col = None \<longrightarrow> snd (effectSizer_call fmt num_col cat_col df) = df)"
proof -
  have names: "map fst (snd (effectSizer_call fmt num_col cat_col df)) = map fst df"
    by (auto simp: snd_effectSizer_call map_fst_dict_set column_Some_fst split: option.splits)
  have others: "column (snd (effectSizer_call fmt num_col cat_col df)) c = column df c"
    if "c \<noteq> cat_col" for c
    using that by (simp add: snd_effectSizer_call column_dict_set split: option.splits)
  have cleaned: "column (snd (effectSizer_call fmt num_col cat_col df)) cat_col
      = Some (Object (map Str (clean fmt s)))"
    if "column df cat_col = Some s" for s
    using that by (simp add: snd_effectSizer_call column_dict_set)
  have absent: "column df cat_col = None \<longrightarrow> snd (effectSizer_call fmt num_col cat_col df) = df"
    by (simp add: snd_effectSizer_call)
  show ?thesis
    using names others cleaned absent
    by (simp add: age_splitter_call_eq cohortCompare_call_eq)
qed

theorem effectSizer_frame_witness:
  "snd (age_splitter_call ''val'' 3 scores) = scores
   \<and> snd (cohortCompare_call no_numbers [''group''] default_statistics scores) = scores
   \<and> column (snd (effectSizer_call no_numbers ''val'' ''group'' scores)) ''val''
       = Some (Numeric [Some 1, Some 2, Some 3, Some 4, Some 5, Some 6])
   \<and> column (snd (effectSizer_call no_numbers ''val'' ''group'' scores)) ''group''
       = Some (Object [Str ''x'', Str ''x'', Str ''x'', Str ''y'', Str ''y'', Str ''y''])"
proof -
  have v: "column scores ''val'' = Some (Numeric [Some 1, Some 2, Some 3, Some 4, Some 5, Some 6])"
    by (simp add: column_def scores_def)
  have g: "column scores ''group'' =
      Some (Object [Str ''x'', Str '' x'', Str ''x '', Str ''y'', Str ''y'', Str ''y''])"
    by (simp add: column_def scores_def)
  have ne: "''val'' \<noteq> ''group''" by simp
  from effectSizer_frame [of "''val''" 3 scores no_numbers "[''group'']" default_statistics
      "''val''" "''group''"]
  show ?thesis
    using v g ne by (auto simp: clean_scores)
qed

text \<open>
  Claim C5 as stated fails: after effectSizer the table \<open>scores\<close>, whose group column
  has values with surrounding blanks, is another table.
\<close>

theorem effectSizer_changes_table:
  "snd (effectSizer_call no_numbers ''val'' ''group'' scores) \<noteq> scores"
  by (simp add: snd_effectSizer_call scores_def column_def clean_def strip_examples)

text \<open>
  Claim C4 at a table with a missing category. The column holds exactly two distinct
  values that are not missing, a and b, and effectSizer raises ValueError: the conversion
  to strings has made the missing entry the string nan before \<open>dropna()\<close> is called, so
  that three values are found. With the values a, missing, a there is one distinct value
  that is not missing, and no error is raised.
\<close>

theorem effectSizer_missing_is_a_value:
  "effectSizer no_numbers
     [(''val'', Numeric [Some 1, Some 2, Some 3]), (''cat'', Object [Str ''a'', ObjNaN, Str ''b''])]
     ''val'' ''cat'' = Inl (ValueError ''cat'' [''a'', ''nan'', ''b''])
   \<and> effectSizer no_numbers
     [(''val'', Numeric [Some 1, Some 2, Some 3]), (''cat'', Object [Str ''a'', ObjNaN, Str ''a''])]
     ''val'' ''cat'' = Inr (Some 0)"
proof -
  let ?t = "[(''val'', Numeric [Some 1, Some 2, Some 3]),
             (''cat'', Object [Str ''a'', ObjNaN, Str ''b''])]"
  let ?u = "[(''val'', Numeric [Some 1, Some 2, Some 3]),
             (''cat'', Object [Str ''a'', ObjNaN, Str ''a''])]"
  have "column ?t ''cat'' = Some (Object [Str ''a'', ObjNaN, Str ''b''])"
    by (simp add: column_def)
  from effectSizer_call_eq [OF this, of no_numbers "''val''"]
  have t: "effectSizer no_numbers ?t ''val'' ''cat'' = Inl (ValueError ''cat'' [''a'', ''nan'', ''b''])"
    by (simp add: effectSizer_def clean_def strip_examples Let_def)
  have "column ?u ''cat'' = Some (Object [Str ''a'', ObjNaN, Str ''a''])"
    by (simp add: column_def)
  from effectSizer_call_eq [OF this, of no_numbers "''val''"]
  have u: "effectSizer no_numbers ?u ''val'' ''cat'' = Inr (Some 0)"
    by (simp add: effectSizer_def clean_def strip_examples Let_def column_dict_set column_def
        effect_size_def series_std_def pooled_std_None)
  from t u show ?thesis by simp
qed

text \<open>
  Claim C8 at a table whose categorical column has exactly two distinct values, a and b,
  and a row in which the category is missing. The claim gives the effect size of the
  groups of a and of b, which is -3; effectSizer raises ValueError, since the missing
  entry has become the string nan and is found as a third value. Without that row it
  returns -3.
\<close>

theorem effectSizer_missing_row_raises:
  "effectSizer no_numbers with_missing_category ''val'' ''cat''
     = Inl (ValueError ''cat'' [''a'', ''nan'', ''b''])
   \<and> effectSizer no_numbers without_missing_category ''val'' ''cat'' = Inr (Some (- 3))"
proof -
  have "column with_missing_category ''cat'' =
      Some (Object [Str ''a'', Str ''a'', Str ''a'', ObjNaN, Str ''b'', Str ''b'', Str ''b''])"
    by (simp add: column_def with_missing_category_def)
  from effectSizer_call_eq [OF this, of no_numbers "''val''"]
  have t: "effectSizer no_numbers with_missing_category ''val'' ''cat''
     = Inl (ValueError ''cat'' [''a'', ''nan'', ''b''])"
    by (simp add: effectSizer_def clean_def strip_examples Let_def)
  have "column without_missing_category ''cat'' =
      Some (Object [Str ''a'', Str ''a'', Str ''a'', Str ''b'', Str ''b'', Str ''b''])"
    by (simp add: column_def without_missing_category_def)
  from effectSizer_call_eq [OF this, of no_numbers "''val''"]
  have u: "effectSizer no_numbers without_missing_category ''val'' ''cat'' = Inr (Some (- 3))"
    by (simp add: effectSizer_def clean_def strip_examples Let_def column_dict_set column_def
        without_missing_category_def effect_size_def std_examples pooled_std_value)
  from t u show ?thesis by simp
qed

section \<open>Properties of CohortMetric\<close>

lemma pandas_equals_refl: "has_equals v \<Longrightarrow> pandas_equals v v"
  by (cases v) (simp_all add: same_entries_def same_columns_def)

lemma pandas_equals_has_equals: "pandas_equals v w \<Longrightarrow> has_equals v"
  by (cases v) simp_all

lemma compare_loop_True:
  "compare_loop xs other = Inr True \<longleftrightarrow>
     (\<forall>(k, v)\<in>set xs. \<exists>w. map_of other k = Some w \<and> pandas_equals v w)"
proof (induction xs)
  case Nil
  then show ?case by simp
next
  case (Cons p xs)
  obtain k v where p: "p = (k, v)" by (cases p)
  show ?case
  proof (cases "has_equals v")
    case False
    with p show ?thesis by (auto dest: pandas_equals_has_equals)
  next
    case True
    with p Cons show ?thesis
      by (cases "map_of other k") auto
  qed
qed

lemma compare_loop_all_pandas:
  "\<forall>(k, v)\<in>set xs. has_equals v \<and> k \<in> dom (map_of other) \<Longrightarrow>
   compare_loop xs other =
     Inr (\<forall>(k, v)\<in>set xs. \<exists>w. map_of other k = Some w \<and> pandas_equals v w)"
proof (induction xs)
  case Nil
  then show ?case by simp
next
  case (Cons p xs)
  obtain k v where p: "p = (k, v)" by (cases p)
  from Cons.prems p obtain w where w: "map_of other k = Some w" and h: "has_equals v"
    by auto
  from Cons have ih: "compare_loop xs other =
      Inr (\<forall>(k, v)\<in>set xs. \<exists>w. map_of other k = Some w \<and> pandas_equals v w)"
    by simp
  show ?case
    using p w h ih by auto
qed

lemma statistics_five_slot:
  "statistics (five_slot name a b c d e) =
     [(''mean'', a), (''median'', b), (''std'', c), (''min'', d), (''max'', e)]"
  by (simp add: five_slot_def setMean_def setMedian_def setStd_def setMin_def setMax_def
      set_statistic_def CohortMetric_def)

text \<open>
  Claim C3, as amended. compare\_to goes through the entries of self's statistics in
  insertion order. It returns True exactly when every value stored in self is an object of
  pandas, which has \<open>equals\<close>, and other holds under the same key an object that is equal
  to it: one of the same class, dtype, index labels and entries. When every value of self
  is such an object and other has every key of self, it returns a boolean: whether other
  holds an equal object under every key. When the first value of self has no \<open>equals\<close>,
  as the placeholder None or a float has none, it raises AttributeError. Two metrics filled
  through the five setters with objects of pandas compare equal exactly when the five
  objects are pairwise equal, and an object of pandas is equal to itself.
\<close>

theorem compare_to_on_series:
  "(compare_to self other = Inr True \<longleftrightarrow>
      (\<forall>(k, v)\<in>set (statistics self).
         has_equals v \<and> (\<exists>w. map_of (statistics other) k = Some w \<and> pandas_equals v w)))
   \<and> ((\<forall>(k, v)\<in>set (statistics self).
         has_equals v \<and> k \<in> dom (map_of (statistics other))) \<longrightarrow>
       compare_to self other =
         Inr (\<forall>(k, v)\<in>set (statistics self).
                \<exists>w. map_of (statistics other) k = Some w \<and> pandas_equals v w))
   \<and> ((\<exists>k v rest. statistics self = (k, v) # rest \<and> \<not> has_equals v) \<longrightarrow>
       compare_to self other = Inl AttributeError)
   \<and> (has_equals a1 \<and> has_equals b1 \<and> has_equals c1 \<and> has_equals d1 \<and> has_equals e1 \<longrightarrow>
       compare_to (five_slot name1 a1 b1 c1 d1 e1) (five_slot name2 a2 b2 c2 d2 e2)
         = Inr (pandas_equals a1 a2 \<and> pandas_equals b1 b2 \<and> pandas_equals c1 c2
                \<and> pandas_equals d1 d2 \<and> pandas_equals e1 e2))
   \<and> (has_equals a1 \<longrightarrow> pandas_equals a1 a1)"
proof -
  have t: "compare_to self other = Inr True \<longleftrightarrow>
      (\<forall>(k, v)\<in>set (statistics self).
         has_equals v \<and> (\<exists>w. map_of (statistics other) k = Some w \<and> pandas_equals v w))"
    by (auto simp: compare_to_def compare_loop_True dest: pandas_equals_has_equals)
  have b: "(\<forall>(k, v)\<in>set (statistics self).
         has_equals v \<and> k \<in> dom (map_of (statistics other))) \<longrightarrow>
       compare_to self other =
         Inr (\<forall>(k, v)\<in>set (statistics self).
                \<exists>w. map_of (statistics other) k = Some w \<and> pandas_equals v w)"
    using compare_loop_all_pandas [of "statistics self" "statistics other"]
    by (simp add: compare_to_def)
  have r: "(\<exists>k v rest. statistics self = (k, v) # rest \<and> \<not> has_equals v) \<longrightarrow>
       compare_to self other = Inl AttributeError"
    by (auto simp: compare_to_def)
  have f: "has_equals a1 \<and> has_equals b1 \<and> has_equals c1 \<and> has_equals d1 \<and> has_equals e1 \<longrightarrow>
       compare_to (five_slot name1 a1 b1 c1 d1 e1) (five_slot name2 a2 b2 c2 d2 e2)
         = Inr (pandas_equals a1 a2 \<and> pandas_equals b1 b2 \<and> pandas_equals c1 c2
                \<and> pandas_equals d1 d2 \<and> pandas_equals e1 e2)"
    by (simp add: compare_to_def statistics_five_slot)
  from t b r f pandas_equals_refl [of a1] show ?thesis by blast
qed

text \<open>
  Claim C3 as stated fails: comparing two freshly constructed metrics, and comparing a
  metric whose five slots hold floats with an identical one, raises AttributeError instead
  of returning a boolean.
\<close>

theorem compare_to_raises:
  "compare_to (CohortMetric ''a'') (CohortMetric ''a'') = Inl AttributeError
   \<and> compare_to
        (five_slot ''a'' (PyFloat (Some 1)) (PyFloat (Some 1)) (PyFloat (Some 0)) (PyFloat (Some 1)) (PyFloat (Some 1)))
        (five_slot ''a'' (PyFloat (Some 1)) (PyFloat (Some 1)) (PyFloat (Some 0)) (PyFloat (Some 1)) (PyFloat (Some 1)))
      = Inl AttributeError"
  by (simp add: compare_to_def statistics_five_slot CohortMetric_def)

theorem compare_to_on_series_witness:
  "compare_to (five_slot ''a'' means means deviations means means)
     (five_slot ''b'' means means deviations means means) = Inr True
   \<and> compare_to (five_slot ''a'' means means deviations means means)
     (five_slot ''a'' means means deviations means whole_means) = Inr False
   \<and> compare_to (five_slot ''a'' means means deviations means means)
     (five_slot ''a'' means means deviations means (PyFloat (Some 1))) = Inr False
   \<and> compare_to (setMean (CohortMetric ''a'') means) (CohortMetric ''b'') = Inr False
   \<and> compare_to (CohortMetric ''a'') (CohortMetric ''b'') = Inl AttributeError"
proof -
  let ?s = "five_slot ''a'' means means deviations means means"
  let ?o = "five_slot ''b'' means means deviations means means"
  have h: "has_equals means" "has_equals deviations"
    by (simp_all add: means_def deviations_def)
  have eq: "pandas_equals means means" "pandas_equals deviations deviations"
    by (simp_all add: means_def deviations_def same_entries_def)
  have ne: "\<not> pandas_equals means whole_means" "\<not> pandas_equals means (PyFloat (Some 1))"
    by (simp_all add: means_def whole_means_def)
  have 1: "compare_to ?s ?o = Inr True"
    using compare_to_on_series [of ?s ?o] h eq
    by (simp add: statistics_five_slot)
  have 2: "compare_to ?s (five_slot ''a'' means means deviations means whole_means) = Inr False"
    using compare_to_on_series [of ?s ?o means means deviations means means
        "''a''" "''a''" means means deviations means whole_means] h eq ne
    by simp
  have 3: "compare_to ?s (five_slot ''a'' means means deviations means (PyFloat (Some 1)))
      = Inr False"
    using compare_to_on_series [of ?s ?o means means deviations means means
        "''a''" "''a''" means means deviations means "PyFloat (Some 1)"] h eq ne
    by simp
  have 4: "compare_to (setMean (CohortMetric ''a'') means) (CohortMetric ''b'') = Inr False"
    by (simp add: compare_to_def setMean_def set_statistic_def CohortMetric_def means_def)
  have 5: "compare_to (CohortMetric ''a'') (CohortMetric ''b'') = Inl AttributeError"
    using compare_to_on_series [of "CohortMetric ''a''" "CohortMetric ''b''"]
    by (simp add: CohortMetric_def)
  from 1 2 3 4 5 show ?thesis by blast
qed

section \<open>Properties of cohortCompare\<close>

lemma set_dict_set: "set (dict_set d k v) \<subseteq> insert (k, v) (set d)"
  by (induction d k v rule: dict_set.induct) auto

lemma map_of_stats_for:
  "map_of (stats_for requested series) k = (if k \<in> set requested then statistic k series else None)"
  by (simp add: stats_for_def statistic_def Let_def map_of_dict_set)

lemma set_unique [simp]: "set (unique xs) = set xs"
  by (induction xs rule: unique.induct) auto

lemma map_of_value_counts:
  "map_of (value_counts s) v =
     (if \<not> missing v \<and> v \<in> set (cells s) then Some (count_list (cells s) v) else None)"
proof -
  let ?vs = "filter (\<lambda>c. \<not> missing c) (cells s)"
  have c: "\<not> missing v \<Longrightarrow> count_list (filter (\<lambda>c. \<not> missing c) xs) v = count_list xs v" for xs
    by (induction xs) auto
  have "map_of (map (\<lambda>v. (v, count_list ?vs v)) (unique ?vs)) v =
        (if v \<in> set (unique ?vs) then Some (count_list ?vs v) else None)"
    by (simp add: map_of_map_restrict restrict_map_def)
  then show ?thesis
    by (auto simp: value_counts_def Let_def c)
qed

text \<open>What the loops over the numeric and the categorical columns leave in their dicts.\<close>

lemma numeric_stats_loop_lookup:
  "numeric_stats_loop cdf requested cols d = Inr out \<Longrightarrow>
   (c \<in> set cols \<longrightarrow> (\<exists>s xs. column cdf c = Some s \<and> float_values s = Inr xs
                            \<and> map_of out c = Some (stats_for requested xs)))
   \<and> (c \<notin> set cols \<longrightarrow> map_of out c = map_of d c)"
proof (induction cols arbitrary: d)
  case Nil
  then show ?case by simp
next
  case (Cons a cols)
  from Cons.prems obtain s xs where s: "column cdf a = Some s" "float_values s = Inr xs"
    and rest: "numeric_stats_loop cdf requested cols (dict_set d a (stats_for requested xs)) = Inr out"
    by (auto split: option.splits sum.splits)
  from Cons.IH [OF rest] s show ?case
    by (auto simp: map_of_dict_set)
qed

lemma counts_loop_lookup:
  "counts_loop cdf cols d = Inr out \<Longrightarrow>
   (c \<in> set cols \<longrightarrow> (\<exists>s. column cdf c = Some s \<and> map_of out c = Some (value_counts s)))
   \<and> (c \<notin> set cols \<longrightarrow> map_of out c = map_of d c)"
proof (induction cols arbitrary: d)
  case Nil
  then show ?case by simp
next
  case (Cons a cols)
  from Cons.prems obtain s where s: "column cdf a = Some s"
    and rest: "counts_loop cdf cols (dict_set d a (value_counts s)) = Inr out"
    by (auto split: option.splits)
  from Cons.IH [OF rest] s show ?case
    by (auto simp: map_of_dict_set)
qed

text \<open>The metric of one cohort, when it is built.\<close>

lemma cohort_metric_of_Inr:
  assumes "cohort_metric_of fmt df requested c s v = Inr m"
  shows "\<exists>ns cs.
      numeric_stats_loop (select_rows (cohort_rows s v) df) requested (numeric_cols df) [] = Inr ns
    \<and> counts_loop (select_rows (cohort_rows s v) df) (categorical_cols df) [] = Inr cs
    \<and> cohort_name m = cohort_label fmt c v
    \<and> statistics m = [(''mean'', PyNone), (''median'', PyNone), (''std'', PyNone),
         (''min'', PyNone), (''max'', PyNone), (''numeric_stats'', NumericStats ns),
         (''counts'', Counts cs)]"
  using assms
  by (auto simp: cohort_metric_of_def Let_def set_statistic_def CohortMetric_def
      split: sum.splits)

text \<open>Every entry of the result is the metric of a value of a grouping column.\<close>

lemma values_loop_entries:
  "values_loop fmt df requested c s vs results = Inr out \<Longrightarrow> (l, m) \<in> set out \<Longrightarrow>
   (l, m) \<in> set results
   \<or> (\<exists>v\<in>set vs. l = cohort_label fmt c v \<and> cohort_metric_of fmt df requested c s v = Inr m)"
proof (induction vs arbitrary: results)
  case Nil
  then show ?case by simp
next
  case (Cons v vs)
  from Cons.prems(1) obtain mv where mv: "cohort_metric_of fmt df requested c s v = Inr mv"
    and rest: "values_loop fmt df requested c s vs (dict_set results (cohort_label fmt c v) mv) = Inr out"
    by (auto split: sum.splits)
  from Cons.IH [OF rest Cons.prems(2)] mv set_dict_set [of results "cohort_label fmt c v" mv]
  show ?case by auto
qed

lemma cohorts_loop_entries:
  "cohorts_loop fmt df requested cs results = Inr out \<Longrightarrow> (l, m) \<in> set out \<Longrightarrow>
   (l, m) \<in> set results
   \<or> (\<exists>c\<in>set cs. \<exists>s. column df c = Some s \<and>
         (\<exists>v\<in>set (cells s). l = cohort_label fmt c v \<and> cohort_metric_of fmt df requested c s v = Inr m))"
proof (induction cs arbitrary: results)
  case Nil
  then show ?case by simp
next
  case (Cons c cs)
  from Cons.prems(1) obtain s r1 where s: "column df c = Some s"
    and r1: "values_loop fmt df requested c s (unique (cells s)) results = Inr r1"
    and rest: "cohorts_loop fmt df requested cs r1 = Inr out"
    by (auto split: option.splits sum.splits)
  from Cons.IH [OF rest Cons.prems(2)]
  show ?case
  proof
    assume "(l, m) \<in> set r1"
    from values_loop_entries [OF r1 this] s show ?thesis by auto
  next
    assume "\<exists>c\<in>set cs. \<exists>s. column df c = Some s \<and>
         (\<exists>v\<in>set (cells s). l = cohort_label fmt c v \<and> cohort_metric_of fmt df requested c s v = Inr m)"
    then show ?thesis by auto
  qed
qed

lemma cohortCompare_entries:
  assumes "cohortCompare fmt df cohorts requested = Inr results" and "(l, m) \<in> set results"
  shows "\<exists>c\<in>set cohorts. \<exists>s. column df c = Some s \<and>
         (\<exists>v\<in>set (cells s). l = cohort_label fmt c v \<and> cohort_metric_of fmt df requested c s v = Inr m)"
  using cohorts_loop_entries [OF assms [unfolded cohortCompare_def]] by simp


lemma in_numeric_cols:
  "c \<in> set (numeric_cols df) \<longleftrightarrow> (\<exists>s. (c, s) \<in> set df \<and> is_numeric s)"
  by (auto simp: numeric_cols_def intro: rev_image_eqI)

lemma in_categorical_cols:
  "c \<in> set (categorical_cols df) \<longleftrightarrow> c \<in> fst ` set df \<and> c \<notin> set (numeric_cols df)"
  by (auto simp: categorical_cols_def)

lemma column_in_set: "column df c = Some s \<Longrightarrow> (c, s) \<in> set df"
  by (auto simp: column_def dest: map_of_SomeD)

lemma column_distinct: "distinct (map fst df) \<Longrightarrow> (c, s) \<in> set df \<Longrightarrow> column df c = Some s"
  by (simp add: column_def)

lemma numeric_stat_of_metric:
  assumes m: "cohort_metric_of fmt df requested c s v = Inr m"
    and col: "column df num_col = Some (Numeric xs)"
  shows "numeric_stat m num_col k =
     (if k \<in> set requested then statistic k (take_rows (cohort_rows s v) xs) else None)"
proof -
  let ?cdf = "select_rows (cohort_rows s v) df"
  from cohort_metric_of_Inr [OF m] obtain ns cs where
    ns: "numeric_stats_loop ?cdf requested (numeric_cols df) [] = Inr ns"
    and st: "statistics m = [(''mean'', PyNone), (''median'', PyNone), (''std'', PyNone),
         (''min'', PyNone), (''max'', PyNone), (''numeric_stats'', NumericStats ns),
         (''counts'', Counts cs)]"
    by blast
  from col have "num_col \<in> set (numeric_cols df)"
    by (auto simp: in_numeric_cols dest!: column_in_set)
  with numeric_stats_loop_lookup [OF ns, of num_col] obtain s' xs' where
    s': "column ?cdf num_col = Some s'" "float_values s' = Inr xs'"
    "map_of ns num_col = Some (stats_for requested xs')"
    by blast
  from s'(1,2) col have "xs' = take_rows (cohort_rows s v) xs"
    by (auto simp: column_select_rows)
  with s'(3) st show ?thesis
    by (simp add: numeric_stat_def map_of_stats_for)
qed

lemma count_of_metric:
  assumes d: "distinct (map fst df)"
    and m: "cohort_metric_of fmt df requested c s v = Inr m"
    and col: "column df cat_col = Some (Object ys)"
  shows "count_of m cat_col w =
     (let cohort = map str_cell (take_rows (cohort_rows s v) ys)
      in if \<not> missing w \<and> w \<in> set cohort then Some (count_list cohort w) else None)"
proof -
  let ?cdf = "select_rows (cohort_rows s v) df"
  from cohort_metric_of_Inr [OF m] obtain ns cs where
    cs: "counts_loop ?cdf (categorical_cols df) [] = Inr cs"
    and st: "statistics m = [(''mean'', PyNone), (''median'', PyNone), (''std'', PyNone),
         (''min'', PyNone), (''max'', PyNone), (''numeric_stats'', NumericStats ns),
         (''counts'', Counts cs)]"
    by blast
  have "cat_col \<notin> set (numeric_cols df)"
  proof
    assume "cat_col \<in> set (numeric_cols df)"
    then obtain s' where "(cat_col, s') \<in> set df" "is_numeric s'"
      by (auto simp: in_numeric_cols)
    with column_distinct [OF d] col show False by auto
  qed
  with col have "cat_col \<in> set (categorical_cols df)"
    by (auto simp: in_categorical_cols dest!: column_in_set intro: rev_image_eqI)
  with counts_loop_lookup [OF cs, of cat_col] obtain s' where
    s': "column ?cdf cat_col = Some s'" "map_of cs cat_col = Some (value_counts s')"
    by blast
  from s'(1) col have "s' = Object (take_rows (cohort_rows s v) ys)"
    by (auto simp: column_select_rows)
  with s'(2) st show ?thesis
    by (simp add: count_of_def map_of_value_counts Let_def)
qed

lemma stats_123: "stats_for default_statistics [Some 1, Some 2, Some 3] =
    [(''mean'', Some 2), (''median'', Some 2), (''std'', Some 1), (''min'', Some 1), (''max'', Some 3)]"
  by (simp add: stats_for_def default_statistics_def series_mean_def series_median_def
      series_std_def series_min_def series_max_def Let_def)

lemma stats_456: "stats_for default_statistics [Some 4, Some 5, Some 6] =
    [(''mean'', Some 5), (''median'', Some 5), (''std'', Some 1), (''min'', Some 4), (''max'', Some 6)]"
  by (simp add: stats_for_def default_statistics_def series_mean_def series_median_def
      series_std_def series_min_def series_max_def Let_def)

lemma measurements_result:
  "cohortCompare no_numbers measurements [''group''] default_statistics =
     Inr [(''group=x'',
           \<lparr>cohort_name = ''group=x'',
            statistics = [(''mean'', PyNone), (''median'', PyNone), (''std'', PyNone),
              (''min'', PyNone), (''max'', PyNone),
              (''numeric_stats'', NumericStats [(''val'', stats_for default_statistics [Some 1, Some 2, Some 3])]),
              (''counts'', Counts [(''group'', [(StrV ''x'', 3)])])]\<rparr>),
          (''group=y'',
           \<lparr>cohort_name = ''group=y'',
            statistics = [(''mean'', PyNone), (''median'', PyNone), (''std'', PyNone),
              (''min'', PyNone), (''max'', PyNone),
              (''numeric_stats'', NumericStats [(''val'', stats_for default_statistics [Some 4, Some 5, Some 6])]),
              (''counts'', Counts [(''group'', [(StrV ''y'', 3)])])]\<rparr>)]"
  by (simp add: cohortCompare_def measurements_def column_def cohort_metric_of_def cohort_rows_def series_eq_def
      select_rows_def numeric_cols_def categorical_cols_def cohort_label_def CohortMetric_def
      set_statistic_def value_counts_def Let_def)


text \<open>The keys of the result are the labels of all the values of the grouping columns, the
  missing marker among them.\<close>

lemma fst_set_dict_set: "fst ` set (dict_set d k v) = insert k (fst ` set d)"
  by (induction d k v rule: dict_set.induct) auto

lemma distinct_dict_set: "distinct (map fst d) \<Longrightarrow> distinct (map fst (dict_set d k v))"
  by (induction d k v rule: dict_set.induct) (auto simp: fst_set_dict_set)

lemma values_loop_distinct:
  "values_loop fmt df requested c s vs results = Inr out \<Longrightarrow> distinct (map fst results) \<Longrightarrow>
   distinct (map fst out)"
proof (induction vs arbitrary: results)
  case Nil
  then show ?case by simp
next
  case (Cons v vs)
  from Cons.prems(1) obtain mv where
    rest: "values_loop fmt df requested c s vs (dict_set results (cohort_label fmt c v) mv) = Inr out"
    by (auto split: sum.splits)
  from Cons.IH [OF rest] Cons.prems(2) show ?case
    by (simp add: distinct_dict_set)
qed

lemma cohorts_loop_distinct:
  "cohorts_loop fmt df requested cs results = Inr out \<Longrightarrow> distinct (map fst results) \<Longrightarrow>
   distinct (map fst out)"
proof (induction cs arbitrary: results)
  case Nil
  then show ?case by simp
next
  case (Cons c cs)
  from Cons.prems(1) obtain s r1 where
    r1: "values_loop fmt df requested c s (unique (cells s)) results = Inr r1"
    and rest: "cohorts_loop fmt df requested cs r1 = Inr out"
    by (auto split: option.splits sum.splits)
  from Cons.IH [OF rest] values_loop_distinct [OF r1 Cons.prems(2)] show ?case
    by simp
qed

lemma values_loop_keys:
  "values_loop fmt df requested c s vs results = Inr out \<Longrightarrow>
   fst ` set out = fst ` set results \<union> cohort_label fmt c ` set vs"
proof (induction vs arbitrary: results)
  case Nil
  then show ?case by simp
next
  case (Cons v vs)
  from Cons.prems obtain mv where
    rest: "values_loop fmt df requested c s vs (dict_set results (cohort_label fmt c v) mv) = Inr out"
    by (auto split: sum.splits)
  from Cons.IH [OF rest] show ?case
    by (auto simp: fst_set_dict_set)
qed

lemma cohorts_loop_keys:
  "cohorts_loop fmt df requested cs results = Inr out \<Longrightarrow>
   fst ` set out = fst ` set results
     \<union> {cohort_label fmt c v |c v s. c \<in> set cs \<and> column df c = Some s \<and> v \<in> set (cells s)}"
proof (induction cs arbitrary: results)
  case Nil
  then show ?case by simp
next
  case (Cons c cs)
  from Cons.prems obtain s r1 where s: "column df c = Some s"
    and r1: "values_loop fmt df requested c s (unique (cells s)) results = Inr r1"
    and rest: "cohorts_loop fmt df requested cs r1 = Inr out"
    by (auto split: option.splits sum.splits)
  have "fst ` set out = fst ` set r1
     \<union> {cohort_label fmt c v |c v s. c \<in> set cs \<and> column df c = Some s \<and> v \<in> set (cells s)}"
    by (rule Cons.IH [OF rest])
  also have "fst ` set r1 = fst ` set results \<union> cohort_label fmt c ` set (cells s)"
    using values_loop_keys [OF r1] by simp
  finally show ?case
    using s by auto
qed

lemma cohortCompare_keys:
  "cohortCompare fmt df cohorts requested = Inr results \<Longrightarrow>
   fst ` set results =
     {cohort_label fmt c v |c v s. c \<in> set cohorts \<and> column df c = Some s \<and> v \<in> set (cells s)}
   \<and> distinct (map fst results)"
  using cohorts_loop_keys [of fmt df requested cohorts "[]" results]
    cohorts_loop_distinct [of fmt df requested cohorts "[]" results]
  by (simp add: cohortCompare_def)

text \<open>On a table with distinct column names, and grouping columns of the table,
  cohortCompare returns a result.\<close>

lemma numeric_stats_loop_returns:
  "\<forall>c\<in>set cols. \<exists>xs. column cdf c = Some (Numeric xs) \<Longrightarrow>
   \<exists>out. numeric_stats_loop cdf requested cols d = Inr out"
  by (induction cols arbitrary: d) auto

lemma counts_loop_returns:
  "\<forall>c\<in>set cols. \<exists>s. column cdf c = Some s \<Longrightarrow> \<exists>out. counts_loop cdf cols d = Inr out"
  by (induction cols arbitrary: d) auto

lemma cohort_metric_of_returns:
  assumes d: "distinct (map fst df)"
  shows "\<exists>m. cohort_metric_of fmt df requested c s v = Inr m"
proof -
  let ?cdf = "select_rows (cohort_rows s v) df"
  have "\<exists>xs. column ?cdf n = Some (Numeric xs)" if "n \<in> set (numeric_cols df)" for n
  proof -
    from that obtain s' where "(n, s') \<in> set df" "is_numeric s'"
      by (auto simp: in_numeric_cols)
    then obtain xs where "column df n = Some (Numeric xs)"
      using column_distinct [OF d] by (cases s') auto
    then show ?thesis by (simp add: column_select_rows)
  qed
  then obtain ns where ns: "numeric_stats_loop ?cdf requested (numeric_cols df) [] = Inr ns"
    using numeric_stats_loop_returns [of "numeric_cols df" ?cdf requested "[]"] by blast
  have "\<exists>s'. column ?cdf n = Some s'" if "n \<in> set (categorical_cols df)" for n
  proof -
    from that obtain s' where "(n, s') \<in> set df"
      by (auto simp: in_categorical_cols)
    then show ?thesis
      using column_distinct [OF d] by (simp add: column_select_rows)
  qed
  then obtain cs where cs: "counts_loop ?cdf (categorical_cols df) [] = Inr cs"
    using counts_loop_returns [of "categorical_cols df" ?cdf "[]"] by blast
  from ns cs show ?thesis
    by (simp add: cohort_metric_of_def Let_def)
qed

lemma values_loop_returns:
  "distinct (map fst df) \<Longrightarrow> \<exists>out. values_loop fmt df requested c s vs results = Inr out"
proof (induction vs arbitrary: results)
  case Nil
  then show ?case by simp
next
  case (Cons v vs)
  from cohort_metric_of_returns [OF Cons.prems, of fmt requested c s v]
  obtain m where "cohort_metric_of fmt df requested c s v = Inr m" by blast
  with Cons.IH [OF Cons.prems] show ?case by simp
qed

lemma cohorts_loop_returns:
  "distinct (map fst df) \<Longrightarrow> set cs \<subseteq> fst ` set df \<Longrightarrow>
   \<exists>out. cohorts_loop fmt df requested cs results = Inr out"
proof (induction cs arbitrary: results)
  case Nil
  then show ?case by simp
next
  case (Cons c cs)
  from Cons.prems obtain s where s: "column df c = Some s"
    using column_distinct by fastforce
  from values_loop_returns [OF Cons.prems(1), of fmt requested c s "unique (cells s)" results]
  obtain r1 where "values_loop fmt df requested c s (unique (cells s)) results = Inr r1" by blast
  with s Cons.IH [of r1] Cons.prems show ?case by auto
qed

lemma cohortCompare_returns:
  "distinct (map fst df) \<Longrightarrow> set cohorts \<subseteq> fst ` set df \<Longrightarrow>
   \<exists>results. cohortCompare fmt df cohorts requested = Inr results"
  by (simp add: cohortCompare_def cohorts_loop_returns)

text \<open>
  Claim C2. Let the column names of the table be distinct and let cohortCompare return a
  result. Every entry of it is the metric of the cohort of a value of a grouping column,
  under the label of that value. For every numeric column, numeric\_stats holds under a
  name exactly when the name is requested and is one of the five statistics, and then the
  mean, median, sample standard deviation, minimum or maximum of the column's values in the
  rows of the cohort, missing values skipped. For every categorical column, counts holds
  under a value that occurs in the rows of the cohort the number of its occurrences, and
  nothing under any other. On the table of the example the result has the keys group=x and
  group=y, with the means 2 and 5, and the minimum 1, the maximum 3 and the standard
  deviation 1 of val in group=x.
\<close>

theorem cohortCompare_statistics:
  "(distinct (map fst df) \<and> cohortCompare fmt df cohorts requested = Inr results
      \<and> (label, m) \<in> set results \<longrightarrow>
      (\<exists>cohort_col s cohort_value.
          cohort_col \<in> set cohorts \<and> column df cohort_col = Some s
        \<and> cohort_value \<in> set (cells s)
        \<and> label = cohort_label fmt cohort_col cohort_value
        \<and> (\<forall>num_col xs k. column df num_col = Some (Numeric xs) \<longrightarrow>
              numeric_stat m num_col k =
                (if k \<in> set requested
                 then statistic k (take_rows (cohort_rows s cohort_value) xs) else None))
        \<and> (\<forall>cat_col ys w. column df cat_col = Some (Object ys) \<longrightarrow>
              count_of m cat_col w =
                (let cohort = map str_cell (take_rows (cohort_rows s cohort_value) ys)
                 in if \<not> missing w \<and> w \<in> set cohort then Some (count_list cohort w) else None))))
   \<and> (\<exists>results mx my.
          cohortCompare no_numbers measurements [''group''] default_statistics = Inr results
        \<and> map fst results = [''group=x'', ''group=y'']
        \<and> map_of results ''group=x'' = Some mx \<and> map_of results ''group=y'' = Some my
        \<and> numeric_stat mx ''val'' ''mean'' = Some (Some 2)
        \<and> numeric_stat my ''val'' ''mean'' = Some (Some 5)
        \<and> numeric_stat mx ''val'' ''min'' = Some (Some 1)
        \<and> numeric_stat mx ''val'' ''max'' = Some (Some 3)
        \<and> numeric_stat mx ''val'' ''std'' = Some (Some 1))"
proof (intro conjI impI)
  assume a: "distinct (map fst df) \<and> cohortCompare fmt df cohorts requested = Inr results
      \<and> (label, m) \<in> set results"
  then obtain c s v where c: "c \<in> set cohorts" "column df c = Some s" "v \<in> set (cells s)"
    "label = cohort_label fmt c v" and m: "cohort_metric_of fmt df requested c s v = Inr m"
    using cohortCompare_entries [of fmt df cohorts requested results label m] by blast
  from a have d: "distinct (map fst df)" by simp
  show "\<exists>cohort_col s cohort_value.
          cohort_col \<in> set cohorts \<and> column df cohort_col = Some s
        \<and> cohort_value \<in> set (cells s)
        \<and> label = cohort_label fmt cohort_col cohort_value
        \<and> (\<forall>num_col xs k. column df num_col = Some (Numeric xs) \<longrightarrow>
              numeric_stat m num_col k =
                (if k \<in> set requested
                 then statistic k (take_rows (cohort_rows s cohort_value) xs) else None))
        \<and> (\<forall>cat_col ys w. column df cat_col = Some (Object ys) \<longrightarrow>
              count_of m cat_col w =
                (let cohort = map str_cell (take_rows (cohort_rows s cohort_value) ys)
                 in if \<not> missing w \<and> w \<in> set cohort then Some (count_list cohort w) else None))"
    using c numeric_stat_of_metric [OF m] count_of_metric [OF d m] by blast
next
  show "\<exists>results mx my.
          cohortCompare no_numbers measurements [''group''] default_statistics = Inr results
        \<and> map fst results = [''group=x'', ''group=y'']
        \<and> map_of results ''group=x'' = Some mx \<and> map_of results ''group=y'' = Some my
        \<and> numeric_stat mx ''val'' ''mean'' = Some (Some 2)
        \<and> numeric_stat my ''val'' ''mean'' = Some (Some 5)
        \<and> numeric_stat mx ''val'' ''min'' = Some (Some 1)
        \<and> numeric_stat mx ''val'' ''max'' = Some (Some 3)
        \<and> numeric_stat mx ''val'' ''std'' = Some (Some 1)"
    by (simp add: measurements_result numeric_stat_def stats_123 stats_456)
qed

text \<open>
  Claim C10. Every metric in a result of cohortCompare still has the five keys mean, median,
  std, min and max, each with the placeholder None, followed by numeric\_stats and counts.
\<close>

theorem cohortCompare_keeps_placeholders:
  assumes "cohortCompare fmt df cohorts requested = Inr results" and "(label, m) \<in> set results"
  shows "map_of (statistics m) ''mean'' = Some PyNone
       \<and> map_of (statistics m) ''median'' = Some PyNone
       \<and> map_of (statistics m) ''std'' = Some PyNone
       \<and> map_of (statistics m) ''min'' = Some PyNone
       \<and> map_of (statistics m) ''max'' = Some PyNone
       \<and> (\<exists>ns. map_of (statistics m) ''numeric_stats'' = Some (NumericStats ns))
       \<and> (\<exists>cs. map_of (statistics m) ''counts'' = Some (Counts cs))
       \<and> map fst (statistics m) =
           [''mean'', ''median'', ''std'', ''min'', ''max'', ''numeric_stats'', ''counts'']"
proof -
  from cohortCompare_entries [OF assms] obtain c s v where
    "cohort_metric_of fmt df requested c s v = Inr m" by blast
  from cohort_metric_of_Inr [OF this] obtain ns cs where
    "statistics m = [(''mean'', PyNone), (''median'', PyNone), (''std'', PyNone),
         (''min'', PyNone), (''max'', PyNone), (''numeric_stats'', NumericStats ns),
         (''counts'', Counts cs)]"
    by blast
  then show ?thesis by simp
qed


lemma survey_result:
  "cohortCompare no_numbers survey [''group''] default_statistics =
     Inr [(''group=k'',
           \<lparr>cohort_name = ''group=k'',
            statistics = [(''mean'', PyNone), (''median'', PyNone), (''std'', PyNone),
              (''min'', PyNone), (''max'', PyNone),
              (''numeric_stats'', NumericStats [(''val'', stats_for default_statistics [Some 1, Some 2, Some 3])]),
              (''counts'', Counts [(''group'', [(StrV ''k'', 3)]), (''cat'', [(StrV ''a'', 2), (StrV ''b'', 1)])])]\<rparr>),
          (''group=j'',
           \<lparr>cohort_name = ''group=j'',
            statistics = [(''mean'', PyNone), (''median'', PyNone), (''std'', PyNone),
              (''min'', PyNone), (''max'', PyNone),
              (''numeric_stats'', NumericStats [(''val'', stats_for default_statistics [Some 9])]),
              (''counts'', Counts [(''group'', [(StrV ''j'', 1)]), (''cat'', [(StrV ''a'', 1)])])]\<rparr>)]"
  by (simp add: cohortCompare_def survey_def column_def cohort_metric_of_def cohort_rows_def series_eq_def
      select_rows_def numeric_cols_def categorical_cols_def cohort_label_def CohortMetric_def
      set_statistic_def value_counts_def Let_def)

theorem cohortCompare_statistics_witness:
  "\<exists>results m.
      cohortCompare no_numbers survey [''group''] default_statistics = Inr results
    \<and> map_of results ''group=k'' = Some m
    \<and> numeric_stat m ''val'' ''mean'' = Some (Some 2)
    \<and> numeric_stat m ''val'' ''max'' = Some (Some 3)
    \<and> count_of m ''cat'' (StrV ''a'') = Some 2
    \<and> count_of m ''cat'' (StrV ''b'') = Some 1
    \<and> count_of m ''cat'' (StrV ''c'') = None"
proof -
  define m where "m =
     \<lparr>cohort_name = ''group=k'',
      statistics = [(''mean'', PyNone), (''median'', PyNone), (''std'', PyNone),
        (''min'', PyNone), (''max'', PyNone),
        (''numeric_stats'', NumericStats [(''val'', stats_for default_statistics [Some 1, Some 2, Some 3])]),
        (''counts'', Counts [(''group'', [(StrV ''k'', 3)]), (''cat'', [(StrV ''a'', 2), (StrV ''b'', 1)])])]\<rparr>"
  obtain results where r: "cohortCompare no_numbers survey [''group''] default_statistics = Inr results"
    and l: "map_of results ''group=k'' = Some m" and e: "(''group=k'', m) \<in> set results"
    by (simp add: survey_result m_def)
  have d: "distinct (map fst survey)"
    by (simp add: survey_def)
  let ?g = "Object [Str ''k'', Str ''k'', Str ''k'', Str ''j'']"
  have g: "column survey c = Some s \<Longrightarrow> c \<in> set [''group''] \<Longrightarrow> s = ?g" for c s
    by (auto simp: survey_def column_def)
  from cohortCompare_statistics [of survey no_numbers "[''group'']" default_statistics results "''group=k''" m]
    d r e
  obtain c s v where c: "c \<in> set [''group'']" "column survey c = Some s" "v \<in> set (cells s)"
      "''group=k'' = cohort_label no_numbers c v"
    and n: "\<And>num_col xs k. column survey num_col = Some (Numeric xs) \<Longrightarrow>
              numeric_stat m num_col k =
                (if k \<in> set default_statistics
                 then statistic k (take_rows (cohort_rows s v) xs) else None)"
    and k: "\<And>cat_col ys w. column survey cat_col = Some (Object ys) \<Longrightarrow>
              count_of m cat_col w =
                (let cohort = map str_cell (take_rows (cohort_rows s v) ys)
                 in if \<not> missing w \<and> w \<in> set cohort then Some (count_list cohort w) else None)"
    by blast
  from c g have s: "s = ?g" by blast
  with c have v: "v = StrV ''k''"
    by (auto simp: cohort_label_def)
  have rows: "cohort_rows s v = [True, True, True, False]"
    by (simp add: s v cohort_rows_def series_eq_def)
  have val: "column survey ''val'' = Some (Numeric [Some 1, Some 2, Some 3, Some 9])"
    and cat: "column survey ''cat'' = Some (Object [Str ''a'', Str ''a'', Str ''b'', Str ''a''])"
    by (simp_all add: survey_def column_def)
  have "numeric_stat m ''val'' ''mean'' = Some (Some 2)"
    using n [OF val, of "''mean''"]
    by (simp add: rows default_statistics_def statistic_def series_mean_def)
  moreover have "numeric_stat m ''val'' ''max'' = Some (Some 3)"
    using n [OF val, of "''max''"]
    by (simp add: rows default_statistics_def statistic_def series_max_def)
  moreover have "count_of m ''cat'' (StrV ''a'') = Some 2"
    using k [OF cat, of "StrV ''a''"] by (simp add: rows)
  moreover have "count_of m ''cat'' (StrV ''b'') = Some 1"
    using k [OF cat, of "StrV ''b''"] by (simp add: rows)
  moreover have "count_of m ''cat'' (StrV ''c'') = None"
    using k [OF cat, of "StrV ''c''"] by (simp add: rows)
  ultimately show ?thesis
    using r l by blast
qed

theorem cohortCompare_keeps_placeholders_witness:
  "\<exists>results m.
      cohortCompare no_numbers measurements [''group''] default_statistics = Inr results
    \<and> map_of results ''group=y'' = Some m
    \<and> map_of (statistics m) ''mean'' = Some PyNone
    \<and> map_of (statistics m) ''max'' = Some PyNone
    \<and> map fst (statistics m) =
        [''mean'', ''median'', ''std'', ''min'', ''max'', ''numeric_stats'', ''counts'']"
proof -
  obtain results m where
    r: "cohortCompare no_numbers measurements [''group''] default_statistics = Inr results"
    and l: "map_of results ''group=y'' = Some m" and e: "(''group=y'', m) \<in> set results"
    by (simp add: measurements_result)
  from cohortCompare_keeps_placeholders [OF r e] r l
  have "cohortCompare no_numbers measurements [''group''] default_statistics = Inr results
    \<and> map_of results ''group=y'' = Some m
    \<and> map_of (statistics m) ''mean'' = Some PyNone
    \<and> map_of (statistics m) ''max'' = Some PyNone
    \<and> map fst (statistics m) =
        [''mean'', ''median'', ''std'', ''min'', ''max'', ''numeric_stats'', ''counts'']"
    by simp
  then show ?thesis
    by (intro exI)
qed

text \<open>
  Claim C1 at a table whose grouping column has a missing entry. \<open>unique()\<close> returns the
  missing marker as one of the values, so the result has the key group=nan besides
  group=x. Its cohort is empty, since the marker is equal to nothing: the mean of val is
  NaN and no value is counted.
\<close>

theorem cohortCompare_missing_cohort:
  "\<exists>results m.
      cohortCompare no_numbers with_missing_group [''group''] default_statistics = Inr results
    \<and> map fst results = [''group=x'', ''group=nan'']
    \<and> map_of results ''group=nan'' = Some m
    \<and> numeric_stat m ''val'' ''mean'' = Some None
    \<and> count_of m ''group'' (StrV ''x'') = None"
proof -
  have "cohortCompare no_numbers with_missing_group [''group''] default_statistics =
     Inr [(''group=x'',
           \<lparr>cohort_name = ''group=x'',
            statistics = [(''mean'', PyNone), (''median'', PyNone), (''std'', PyNone),
              (''min'', PyNone), (''max'', PyNone),
              (''numeric_stats'', NumericStats [(''val'', stats_for default_statistics [Some 1, Some 3])]),
              (''counts'', Counts [(''group'', [(StrV ''x'', 2)])])]\<rparr>),
          (''group=nan'',
           \<lparr>cohort_name = ''group=nan'',
            statistics = [(''mean'', PyNone), (''median'', PyNone), (''std'', PyNone),
              (''min'', PyNone), (''max'', PyNone),
              (''numeric_stats'', NumericStats [(''val'', stats_for default_statistics [])]),
              (''counts'', Counts [(''group'', [])])]\<rparr>)]"
    by (simp add: cohortCompare_def with_missing_group_def column_def cohort_metric_of_def
        cohort_rows_def series_eq_def select_rows_def numeric_cols_def categorical_cols_def cohort_label_def
        CohortMetric_def set_statistic_def value_counts_def Let_def)
  then show ?thesis
    by (simp add: numeric_stat_def count_of_def stats_for_def default_statistics_def
        series_mean_def Let_def)
qed


text \<open>With the None of Python as the missing marker the key is group=None.\<close>

lemma cohortCompare_none_cohort:
  "\<exists>results.
      cohortCompare no_numbers with_none_group [''group''] default_statistics = Inr results
    \<and> map fst results = [''group=x'', ''group=None'']"
  by (simp add: cohortCompare_def with_none_group_def column_def cohort_metric_of_def
      cohort_rows_def series_eq_def select_rows_def numeric_cols_def categorical_cols_def
      cohort_label_def CohortMetric_def set_statistic_def value_counts_def Let_def)

end
